theory Spec2Isabelle
  imports Complex_Main "HOL-Library.Word" "HOL-Library.Char_ord" "HOL-Library.List_Lexorder"
begin

unbundle bit_operations_syntax

section \<open>JavaScript values\<close>

text \<open>
  A JavaScript \<open>number\<close> is modelled as an exact rational: comparisons, sums and products are
  those of the mathematical values and the rounding of IEEE doubles is left out. Counters that
  the code only ever increments from zero (\<open>iteration\<close>) are natural numbers.

  A plain object is an association list in insertion order with pairwise distinct keys, as
  \<open>Object.keys\<close> sees it. Assigning to a key that is present replaces the value in place,
  assigning to a new key appends it.

  An object made by a literal inherits from \<open>Object.prototype\<close>. Its accessor \<open>__proto__\<close>
  takes an assignment \<open>obj["__proto__"] = v\<close>: for a \<open>v\<close> that is not an object (a number, a
  string) the setter does nothing and no own key appears; \<open>obj_assign\<close> is that assignment.
  Reading a key that is not an own key but names a member of \<open>Object.prototype\<close>
  (\<open>constructor\<close>, \<open>toString\<close>, ...) yields the inherited member and not \<open>undefined\<close>; such
  reads are outside the model, and the theorems below exclude them where they matter.
\<close>

type_synonym number = rat

type_synonym 'v object = "(string \<times> 'v) list"

datatype 'n json =
    JNull
  | JBool bool
  | JNum 'n
  | JStr string
  | JArr "'n json list"
  | JObj "(string \<times> 'n json) list"

fun obj_set :: "string \<Rightarrow> 'v \<Rightarrow> 'v object \<Rightarrow> 'v object" where
  "obj_set k v [] = [(k, v)]"
| "obj_set k v ((k', v') # kvs) = (if k' = k then (k, v) # kvs else (k', v') # obj_set k v kvs)"

definition obj_get :: "'v object \<Rightarrow> string \<Rightarrow> 'v option" where
  "obj_get obj k = map_of obj k"

definition obj_assign :: "string \<Rightarrow> 'v \<Rightarrow> 'v object \<Rightarrow> 'v object" where
  "obj_assign k v obj = (if k = ''__proto__'' then obj else obj_set k v obj)"

section \<open>Data model (types.ts)\<close>

datatype Mode = relax | tighten

datatype QlipSolver = gurobi | cbc | highs

record CspMcpServerConfig =
  server_name :: string
  enabled :: "bool option"

record McpConfig =
  qlip_server :: CspMcpServerConfig
  materials_data :: CspMcpServerConfig
  validators :: CspMcpServerConfig
  surrogate_eval :: CspMcpServerConfig

record QlipConfig =
  solver :: QlipSolver
  time_limit_s :: number
  max_solutions :: number
  max_atoms :: number

record PolicyConfig =
  max_iters :: int
  truth_accept_threshold :: number
  relax_order :: "string list"
  tighten_order :: "string list"

record CspConfig =
  workspace_dir :: string
  mcp :: McpConfig
  qlip :: QlipConfig
  policy :: PolicyConfig

record ChemistrySuggestion =
  chem_system :: string
  rationale :: string
  confidence :: number

record LatticePrior =
  symmetry :: string

record ChemistryPriors =
  lattice_prior :: LatticePrior
  density_range :: "number \<times> number"
  oxidation_state_constraints :: "(number list) object"
  prototypes :: "string list"

record Adjustment =
  iteration :: nat
  mode :: Mode
  action :: string

record ConstraintsSpec =
  chem_system :: string
  priors :: ChemistryPriors
  overrides :: "(number json) object option"
  adjustments :: "Adjustment list option"

record CandidateSpec =
  candidate_id :: string
  score :: number
  format :: string
  content :: string

record ValidationCheck =
  name :: string
  passed :: bool
  val :: "number option"
  message :: "string option"
  severity :: "string option"

record ValidationReport =
  candidate_id :: string
  truth_score :: number
  accept :: bool
  checks :: "ValidationCheck list"

record TopCandidate =
  candidate_id :: string
  truth_score :: number

record ValidationSummary =
  total :: number
  accepted :: number
  rejected :: number
  best_candidate_id :: string
  truth_scores :: "number object"
  failure_histogram :: "number object"
  top_candidates :: "TopCandidate list"

datatype RunStatus = running | ok | error

record RunManifest =
  run_id :: string
  status :: RunStatus
  objective :: string
  chem_system :: string
  seed :: int
  created_at :: string
  updated_at :: string
  iteration :: nat
  max_iters :: int
  selected_candidate_id :: "string option"
  truth_score :: "number option"
  config_snapshot :: CspConfig

record CspRunResult =
  run_id :: string
  status :: RunStatus
  workspace_dir :: string
  run_dir :: string
  selected_chemistry :: string
  chosen_candidate_id :: string
  truth_score :: number
  candidate_ids :: "string list"
  summary_hash :: string
  iteration :: nat

record IterationDecision =
  mode :: Mode
  action :: string

record ExportResult =
  candidate_id :: string
  path :: string

section \<open>Iteration policy (iteration.ts)\<close>

text \<open>\<open>h.key || 0\<close>: a missing entry and a zero entry both count as zero.\<close>

definition or_zero :: "number option \<Rightarrow> number" where
  "or_zero v = (case v of None \<Rightarrow> 0 | Some n \<Rightarrow> n)"

definition decideIteration :: "ValidationSummary \<Rightarrow> PolicyConfig \<Rightarrow> nat \<Rightarrow> IterationDecision" where
  "decideIteration summary pol iter =
    (let relaxFailures =
           or_zero (obj_get (failure_histogram summary) ''density_in_range'') +
           or_zero (obj_get (failure_histogram summary) ''charge_neutrality_feasible'') +
           or_zero (obj_get (failure_histogram summary) ''symmetry_match'');
         tightenFailures =
           or_zero (obj_get (failure_histogram summary) ''min_distance'') +
           or_zero (obj_get (failure_histogram summary) ''coordination_reasonable'');
         mode = (if relaxFailures \<ge> tightenFailures then relax else tighten);
         order = (if mode = relax then relax_order pol else tighten_order pol);
         action = (if length order > 0 then order ! (iter mod length order)
                   else if mode = relax then ''widen_lattice'' else ''increase_min_distance_scale'')
     in \<lparr>IterationDecision.mode = mode, action = action\<rparr>)"

text \<open>\<open>{...overrides, key: value}\<close> on an optional object.\<close>

definition spread_set :: "'v object option \<Rightarrow> string \<Rightarrow> 'v \<Rightarrow> 'v object" where
  "spread_set obj k v = obj_set k v (case obj of None \<Rightarrow> [] | Some kvs \<Rightarrow> kvs)"

definition numeric_override :: "(number json) object option \<Rightarrow> string \<Rightarrow> number option" where
  "numeric_override obj k =
    (case obj of None \<Rightarrow> None
     | Some kvs \<Rightarrow> (case obj_get kvs k of Some (JNum n) \<Rightarrow> Some n | _ \<Rightarrow> None))"

definition applyIterationDecision ::
  "ConstraintsSpec \<Rightarrow> IterationDecision \<Rightarrow> nat \<Rightarrow> ConstraintsSpec" where
  "applyIterationDecision constraints decision iter =
    (let adjustments = (case ConstraintsSpec.adjustments constraints of None \<Rightarrow> [] | Some a \<Rightarrow> a) @
           [\<lparr>Adjustment.iteration = iter,
             mode = IterationDecision.mode decision,
             action = IterationDecision.action decision\<rparr>];
         next = constraints\<lparr>adjustments := Some adjustments\<rparr>;
         p = priors next;
         lo = fst (density_range p);
         hi = snd (density_range p);
         act = IterationDecision.action decision
     in if act = ''widen_lattice'' then
          next\<lparr>priors := p\<lparr>density_range := (max (1 / 10) (lo * (9 / 10)), hi * (11 / 10))\<rparr>\<rparr>
        else if act = ''narrow_density'' then
          next\<lparr>priors := p\<lparr>density_range :=
            (lo * (105 / 100), max (lo * (11 / 10)) (hi * (95 / 100)))\<rparr>\<rparr>
        else if act = ''increase_max_atoms'' then
          next\<lparr>overrides := Some (spread_set (overrides next) ''max_atoms''
            (case numeric_override (overrides next) ''max_atoms'' of
               Some n \<Rightarrow> JNum (n + 5) | None \<Rightarrow> JNum 150))\<rparr>
        else if act = ''increase_min_distance_scale'' then
          next\<lparr>overrides := Some (spread_set (overrides next) ''min_distance_scale''
            (case numeric_override (overrides next) ''min_distance_scale'' of
               Some n \<Rightarrow> JNum (n + 5 / 100) | None \<Rightarrow> JNum (105 / 100)))\<rparr>
        else if act = ''expand_prototypes'' then
          next\<lparr>priors := p\<lparr>prototypes := prototypes p @ [''proto_extra'']\<rparr>\<rparr>
        else if act = ''restrict_prototypes'' then
          next\<lparr>priors := p\<lparr>prototypes :=
            take (max 1 (length (prototypes p) - 1)) (prototypes p)\<rparr>\<rparr>
        else next)"

section \<open>Own property order of an object\<close>

text \<open>
  \<open>Object.entries\<close> and \<open>Object.keys\<close> list the keys that are array indices (canonical
  decimal strings below \<open>2^32 - 1\<close>) first, in ascending numeric order, and then every other
  key in insertion order.
\<close>

definition is_digit :: "char \<Rightarrow> bool" where
  "is_digit c = (CHR ''0'' \<le> c \<and> c \<le> CHR ''9'')"

definition digit_value :: "char \<Rightarrow> int" where
  "digit_value c = of_char c - 48"

definition decimal_value :: "string \<Rightarrow> int" where
  "decimal_value s = foldl (\<lambda>a c. 10 * a + digit_value c) 0 s"

definition is_array_index :: "string \<Rightarrow> bool" where
  "is_array_index s =
    (s \<noteq> [] \<and> list_all is_digit s \<and> (s = ''0'' \<or> hd s \<noteq> CHR ''0'') \<and>
     decimal_value s < 4294967295)"

definition Object_entries :: "'v object \<Rightarrow> (string \<times> 'v) list" where
  "Object_entries obj =
     sort_key (\<lambda>kv. decimal_value (fst kv)) (filter (\<lambda>kv. is_array_index (fst kv)) obj) @
     filter (\<lambda>kv. \<not> is_array_index (fst kv)) obj"

definition Object_keys :: "'v object \<Rightarrow> string list" where
  "Object_keys obj = map fst (Object_entries obj)"

section \<open>Verification aggregator (verify/src/index.ts)\<close>

text \<open>
  The inner loop: every check that did not pass adds one to its histogram entry. For a check
  named \<open>__proto__\<close> the assignment stores nothing. A check named like another member of
  \<open>Object.prototype\<close> is outside the model (the code reads the inherited function and
  stores a string).
\<close>

fun count_failures :: "ValidationCheck list \<Rightarrow> number object \<Rightarrow> number object" where
  "count_failures [] h = h"
| "count_failures (c # cs) h =
     count_failures cs
       (if \<not> passed c then obj_assign (name c) (or_zero (obj_get h (name c)) + 1) h else h)"

text \<open>
  The state of the outer loop: \<open>truthScores\<close>, \<open>failureHistogram\<close>, \<open>bestCandidateId\<close>
  and \<open>bestScore\<close>.
\<close>

type_synonym summarize_state = "number object \<times> number object \<times> string \<times> number"

fun summarize_loop :: "ValidationReport list \<Rightarrow> summarize_state \<Rightarrow> summarize_state" where
  "summarize_loop [] st = st"
| "summarize_loop (r # rs) (truthScores, failureHistogram, bestCandidateId, bestScore) =
     summarize_loop rs
       (obj_assign (ValidationReport.candidate_id r) (ValidationReport.truth_score r) truthScores,
        count_failures (checks r) failureHistogram,
        (if ValidationReport.truth_score r > bestScore
         then ValidationReport.candidate_id r else bestCandidateId),
        (if ValidationReport.truth_score r > bestScore
         then ValidationReport.truth_score r else bestScore))"

definition empty_histogram :: "number object" where
  "empty_histogram =
     [(''parseable'', 0), (''min_distance'', 0), (''density_in_range'', 0),
      (''charge_neutrality_feasible'', 0), (''coordination_reasonable'', 0),
      (''symmetry_match'', 0)]"

text \<open>
  \<open>Array.prototype.sort\<close> is stable; with the comparator \<open>b[1] - a[1]\<close> it is the stable
  sort by descending score.
\<close>

definition sort_by_score_desc :: "(string \<times> number) list \<Rightarrow> (string \<times> number) list" where
  "sort_by_score_desc es = sort_key (\<lambda>kv. - snd kv) es"

definition summarizeValidation :: "ValidationReport list \<Rightarrow> number \<Rightarrow> ValidationSummary" where
  "summarizeValidation reports truthAcceptThreshold =
    (case summarize_loop reports ([], empty_histogram, [], - 1) of
      (truthScores, failureHistogram, bestCandidateId, bestScore) \<Rightarrow>
        (let accepted =
               of_nat (length (filter (\<lambda>r. ValidationReport.truth_score r \<ge> truthAcceptThreshold)
                 reports))
         in \<lparr>total = of_nat (length reports),
             accepted = accepted,
             rejected = of_nat (length reports) - accepted,
             best_candidate_id =
               (if bestCandidateId \<noteq> [] then bestCandidateId
                else (case reports of [] \<Rightarrow> [] | r # _ \<Rightarrow> ValidationReport.candidate_id r)),
             truth_scores = truthScores,
             failure_histogram = failureHistogram,
             top_candidates =
               map (\<lambda>kv. \<lparr>TopCandidate.candidate_id = fst kv, truth_score = snd kv\<rparr>)
                 (sort_by_score_desc (Object_entries truthScores))\<rparr>))"

text \<open>
  The order the specification claims for \<open>top_candidates\<close>, in its own words: score
  descending, ties broken by \<open>candidate_id\<close> ascending. \<open>top_of\<close> is the entry that a
  report contributes.
\<close>

definition spec_order :: "TopCandidate \<Rightarrow> TopCandidate \<Rightarrow> bool" where
  "spec_order a b =
     (TopCandidate.truth_score a > TopCandidate.truth_score b \<or>
      (TopCandidate.truth_score a = TopCandidate.truth_score b \<and>
       TopCandidate.candidate_id a < TopCandidate.candidate_id b))"

definition top_of :: "ValidationReport \<Rightarrow> TopCandidate" where
  "top_of r = \<lparr>TopCandidate.candidate_id = ValidationReport.candidate_id r,
              truth_score = ValidationReport.truth_score r\<rparr>"

definition report_of :: "string \<Rightarrow> number \<Rightarrow> ValidationReport" where
  "report_of cid sc =
     \<lparr>ValidationReport.candidate_id = cid, truth_score = sc, accept = False, checks = []\<rparr>"

section \<open>Strings of integers\<close>

text \<open>
  \<open>String(i)\<close> and a template literal print an integer in decimal (the plain notation that
  JavaScript uses below \<open>10^21\<close>).
\<close>

definition digit_char :: "nat \<Rightarrow> char" where
  "digit_char d = ''0123456789'' ! d"

function nat_to_string :: "nat \<Rightarrow> string" where
  "nat_to_string n =
     (if n < 10 then [digit_char n] else nat_to_string (n div 10) @ [digit_char (n mod 10)])"
  by pat_completeness auto
termination
  by (relation "measure id") auto

definition int_to_string :: "int \<Rightarrow> string" where
  "int_to_string i = (if i < 0 then ''-'' @ nat_to_string (nat (- i)) else nat_to_string (nat i))"

definition padStart :: "nat \<Rightarrow> char \<Rightarrow> string \<Rightarrow> string" where
  "padStart n c s = replicate (n - length s) c @ s"

definition hex_char :: "nat \<Rightarrow> char" where
  "hex_char d = ''0123456789abcdef'' ! d"

section \<open>Seeded generator (prng.ts)\<close>

text \<open>
  The state of \<open>SeededRng\<close> is an unsigned 32-bit integer; \<open>Math.imul\<close>, \<open>^\<close>, \<open>|\<close> and
  \<open>>>>\<close> act on the low 32 bits, which is word arithmetic. Seeds are integers (the command
  line truncates them); character codes are those of single-byte characters.
\<close>

type_synonym u32 = "32 word"

definition normalizeSeed :: "int \<Rightarrow> u32" where
  "normalizeSeed sd = (let normalized = (word_of_int sd :: u32) in
     if normalized = 0 then 1 else normalized)"

definition hashStringToSeed :: "string \<Rightarrow> u32" where
  "hashStringToSeed input =
     normalizeSeed (uint (foldl (\<lambda>hash c. (hash XOR of_nat (of_char c)) * 16777619)
       (2166136261 :: u32) input))"

definition seedFromString :: "string \<Rightarrow> u32" where
  "seedFromString v = hashStringToSeed v"

definition new_SeededRng :: "int \<Rightarrow> u32" where
  "new_SeededRng sd = normalizeSeed sd"

definition mulberry_mix1 :: "u32 \<Rightarrow> u32" where
  "mulberry_mix1 t = (t XOR drop_bit 15 t) * (t OR 1)"

definition mulberry_mix2 :: "u32 \<Rightarrow> u32" where
  "mulberry_mix2 t = t XOR (t + (t XOR drop_bit 7 t) * (t OR 61))"

definition next_state :: "u32 \<Rightarrow> u32" where
  "next_state state = mulberry_mix2 (mulberry_mix1 (state + 0x6d2b79f5))"

definition next_output :: "u32 \<Rightarrow> u32" where
  "next_output t = t XOR drop_bit 14 t"

text \<open>\<open>next()\<close>: the draw in \<open>[0, 1)\<close> and the new state.\<close>

definition rng_next :: "u32 \<Rightarrow> number \<times> u32" where
  "rng_next state = (let t = next_state state in (of_int (uint (next_output t)) / 4294967296, t))"

definition nextFloat :: "number \<Rightarrow> number \<Rightarrow> u32 \<Rightarrow> number \<times> u32" where
  "nextFloat lo hi state = (case rng_next state of (x, state') \<Rightarrow> (lo + (hi - lo) * x, state'))"

definition nextInt :: "int \<Rightarrow> int \<Rightarrow> u32 \<Rightarrow> int \<times> u32" where
  "nextInt lo hi state =
     (let lower = min lo hi; upper = max lo hi in
      case nextFloat (of_int lower) (of_int (upper + 1)) state of
        (x, state') \<Rightarrow> (\<lfloor>x\<rfloor>, state'))"

fun nextHex :: "nat \<Rightarrow> u32 \<Rightarrow> string \<times> u32" where
  "nextHex 0 state = ([], state)"
| "nextHex (Suc n) state =
     (case nextInt 0 15 state of
        (d, state') \<Rightarrow> (case nextHex n state' of (out, state'') \<Rightarrow> (hex_char (nat d) # out, state'')))"

section \<open>Utilities (utils.ts)\<close>

definition clamp :: "number \<Rightarrow> number" where
  "clamp v = (if v < 0 then 0 else if v > 1 then 1 else v)"

text \<open>
  \<open>Number(x.toFixed(4))\<close>: the nearest multiple of \<open>10^-4\<close>, the larger one on a tie
  (taken on the absolute value).
\<close>

definition toFixed4 :: "number \<Rightarrow> number" where
  "toFixed4 x = (if x < 0 then - (of_int \<lfloor>- x * 10000 + 1 / 2\<rfloor> / 10000)
                 else of_int \<lfloor>x * 10000 + 1 / 2\<rfloor> / 10000)"

section \<open>JSON text (JSON.stringify, stableStringify)\<close>

text \<open>
  \<open>JSON.stringify\<close> on a string: the quotation mark, the backslash and the control characters
  are escaped, every other character is copied.
\<close>

definition escape_char :: "char \<Rightarrow> string" where
  "escape_char c =
     (if c = CHR ''\"'' then [CHR 0x5C, CHR ''\"'']
      else if c = CHR 0x5C then [CHR 0x5C, CHR 0x5C]
      else if c = CHR 0x08 then [CHR 0x5C, CHR ''b'']
      else if c = CHR 0x0C then [CHR 0x5C, CHR ''f'']
      else if c = CHR 0x0A then [CHR 0x5C, CHR ''n'']
      else if c = CHR 0x0D then [CHR 0x5C, CHR ''r'']
      else if c = CHR 0x09 then [CHR 0x5C, CHR ''t'']
      else if of_char c < (32 :: nat) then
        [CHR 0x5C, CHR ''u'', CHR ''0'', CHR ''0'',
         hex_char (of_char c div 16), hex_char (of_char c mod 16)]
      else [c])"

definition JSON_quote :: "string \<Rightarrow> string" where
  "JSON_quote s = [CHR ''\"''] @ concat (map escape_char s) @ [CHR ''\"'']"

fun join_comma :: "string list \<Rightarrow> string" where
  "join_comma [] = []"
| "join_comma [x] = x"
| "join_comma (x # y # ys) = x @ '','' @ join_comma (y # ys)"

text \<open>
  \<open>JSON.stringify(value)\<close> without indentation. The first argument is the platform's printing
  of a number; members come in the object's own property order.
\<close>

lemma set_Object_entries [simp]: "set (Object_entries obj) = set obj"
  by (auto simp: Object_entries_def)

lemma size_json_member [termination_simp]:
  "(k, v) \<in> set kvs \<Longrightarrow> size v < Suc (size_list (\<lambda>x. Suc (size (snd x))) kvs)"
  by (induction kvs) auto

fun JSON_stringify :: "('n \<Rightarrow> string) \<Rightarrow> 'n json \<Rightarrow> string" where
  "JSON_stringify num JNull = ''null''"
| "JSON_stringify num (JBool b) = (if b then ''true'' else ''false'')"
| "JSON_stringify num (JNum n) = num n"
| "JSON_stringify num (JStr s) = JSON_quote s"
| "JSON_stringify num (JArr vs) = ''['' @ join_comma (map (JSON_stringify num) vs) @ '']''"
| "JSON_stringify num (JObj kvs) =
     ''{'' @ join_comma (map (\<lambda>kv. JSON_quote (fst kv) @ '':'' @ JSON_stringify num (snd kv))
                          (Object_entries kvs)) @ ''}''"

text \<open>
  \<open>stableStringify\<close> (utils.ts): members in the sorted order of \<open>Object.keys\<close>, each value
  read back through its key; arrays keep their order; scalars go to \<open>JSON.stringify\<close>.
\<close>

function (sequential) stableStringify :: "('n \<Rightarrow> string) \<Rightarrow> 'n json \<Rightarrow> string" where
  "stableStringify num JNull = ''null''"
| "stableStringify num (JArr vs) = ''['' @ join_comma (map (stableStringify num) vs) @ '']''"
| "stableStringify num (JObj kvs) =
     ''{'' @ join_comma
       (map (\<lambda>k. JSON_quote k @ '':'' @
               (case map_of kvs k of
                  Some v \<Rightarrow> stableStringify num v
                | None \<Rightarrow> ''undefined''))
            (sort (Object_keys kvs))) @ ''}''"
| "stableStringify num v = JSON_stringify num v"
  by pat_completeness auto
termination
  by (relation "measure (\<lambda>(num, v). size v)")
     (auto dest!: map_of_SomeD simp: size_json_member less_Suc_eq_le size_list_estimation')

section \<open>Platform functions\<close>

text \<open>
  Two functions of the runtime are parameters of the model: SHA-256 with hexadecimal output
  (\<open>node:crypto\<close>) and the printing of a number by \<open>JSON.stringify\<close>.
\<close>

record platform =
  sha256Hex :: "string \<Rightarrow> string"
  number_to_string :: "number \<Rightarrow> string"

datatype js_error = Error string

fun error_message :: "js_error \<Rightarrow> string" where
  "error_message (Error m) = m"

section \<open>Tool client (tool-client.ts)\<close>

text \<open>
  The inputs and outputs of the five tools, one constructor each. A client is its \<open>call\<close>
  method over an explicit client state; a rejected promise is the left summand.
\<close>

datatype tool_input =
    SuggestChemistriesInput string int
  | FetchPriorsInput string int
  | BuildConstraintsInput string ChemistryPriors "(number json) object"
  | RunQlipInput ConstraintsSpec int string "nat option"
  | BatchValidateInput "CandidateSpec list" ConstraintsSpec int number

datatype tool_output =
    ChemistriesOutput "ChemistrySuggestion list"
  | PriorsOutput ChemistryPriors
  | ConstraintsOutput ConstraintsSpec
  | CandidatesOutput "CandidateSpec list"
  | ValidationOutput "ValidationReport list" "ValidationSummary option"

type_synonym 's ToolClient = "string \<Rightarrow> tool_input \<Rightarrow> 's \<Rightarrow> (js_error + tool_output) \<times> 's"

definition CHEMISTRY_TABLE :: "ChemistrySuggestion list list" where
  "CHEMISTRY_TABLE =
   [[\<lparr>ChemistrySuggestion.chem_system = ''Li-Fe-P-O'',
       rationale = ''Phosphate chemistry with stable frameworks'', confidence = 78 / 100\<rparr>,
     \<lparr>ChemistrySuggestion.chem_system = ''Na-Cl'',
       rationale = ''Binary ionic system for baseline CSP'', confidence = 64 / 100\<rparr>,
     \<lparr>ChemistrySuggestion.chem_system = ''Ti-O'',
       rationale = ''Oxide system with known polymorphs'', confidence = 71 / 100\<rparr>],
    [\<lparr>ChemistrySuggestion.chem_system = ''Mg-Si-O'',
       rationale = ''Silicate chemistry for structural diversity'', confidence = 75 / 100\<rparr>,
     \<lparr>ChemistrySuggestion.chem_system = ''Al-N'',
       rationale = ''Nitride system with high symmetry'', confidence = 62 / 100\<rparr>,
     \<lparr>ChemistrySuggestion.chem_system = ''Ca-Ti-O'',
       rationale = ''Perovskite-forming chemistry'', confidence = 82 / 100\<rparr>],
    [\<lparr>ChemistrySuggestion.chem_system = ''Zn-S'',
       rationale = ''Binary semiconductor baseline'', confidence = 7 / 10\<rparr>,
     \<lparr>ChemistrySuggestion.chem_system = ''Li-Co-O'',
       rationale = ''Layered oxide chemistry'', confidence = 8 / 10\<rparr>,
     \<lparr>ChemistrySuggestion.chem_system = ''Fe-S'',
       rationale = ''Transition metal sulfide system'', confidence = 66 / 100\<rparr>]]"

definition PRIOR_TABLE :: "ChemistryPriors list" where
  "PRIOR_TABLE =
   [\<lparr>lattice_prior = \<lparr>symmetry = ''any''\<rparr>,
      density_range = (28 / 10, 42 / 10),
      oxidation_state_constraints =
        [(''Li'', [1]), (''Fe'', [2, 3]), (''P'', [5]), (''O'', [- 2])],
      prototypes = [''olivine'', ''spinel'', ''perovskite'']\<rparr>,
    \<lparr>lattice_prior = \<lparr>symmetry = ''any''\<rparr>,
      density_range = (31 / 10, 5),
      oxidation_state_constraints =
        [(''Mg'', [2]), (''Si'', [4]), (''O'', [- 2]), (''Ca'', [2]), (''Ti'', [4])],
      prototypes = [''perovskite'', ''rutile'', ''rocksalt'']\<rparr>,
    \<lparr>lattice_prior = \<lparr>symmetry = ''any''\<rparr>,
      density_range = (2, 36 / 10),
      oxidation_state_constraints =
        [(''Zn'', [2]), (''S'', [- 2]), (''Li'', [1]), (''Co'', [3, 4]), (''Fe'', [2, 3])],
      prototypes = [''zincblende'', ''wurtzite'', ''layered'']\<rparr>]"

record StubToolClient =
  rng :: u32
  truthThreshold :: number

definition new_StubToolClient :: "int \<Rightarrow> number option \<Rightarrow> StubToolClient" where
  "new_StubToolClient sd thr =
     \<lparr>rng = new_SeededRng sd, truthThreshold = (case thr of None \<Rightarrow> 8 / 10 | Some t \<Rightarrow> t)\<rparr>"

definition suggestChemistries :: "StubToolClient \<Rightarrow> ChemistrySuggestion list \<times> StubToolClient" where
  "suggestChemistries stub =
     (case nextInt 0 (int (length CHEMISTRY_TABLE) - 1) (rng stub) of
        (tableIndex, r) \<Rightarrow> (CHEMISTRY_TABLE ! nat tableIndex, stub\<lparr>rng := r\<rparr>))"

definition fetchPriors :: "StubToolClient \<Rightarrow> ChemistryPriors \<times> StubToolClient" where
  "fetchPriors stub =
     (case nextInt 0 (int (length PRIOR_TABLE) - 1) (rng stub) of
        (tableIndex, r) \<Rightarrow> (PRIOR_TABLE ! nat tableIndex, stub\<lparr>rng := r\<rparr>))"

definition buildConstraints ::
  "string \<Rightarrow> ChemistryPriors \<Rightarrow> (number json) object \<Rightarrow> ConstraintsSpec" where
  "buildConstraints chem prs ovr =
     \<lparr>ConstraintsSpec.chem_system = (if chem \<noteq> [] then chem else ''unknown''),
      priors = prs, overrides = Some ovr, adjustments = None\<rparr>"

definition newline :: string where
  "newline = [CHR 0x0A]"

definition stub_candidate :: "nat \<Rightarrow> number \<Rightarrow> CandidateSpec" where
  "stub_candidate i sc =
     (let candidateId = ''cand_'' @ padStart 4 (CHR ''0'') (nat_to_string i);
          cell = ''5.'' @ nat_to_string i @ ''0''
      in \<lparr>CandidateSpec.candidate_id = candidateId,
          score = sc,
          format = ''cif'',
          content =
            ''data_'' @ candidateId @ newline @
            ''# CIF placeholder for '' @ candidateId @ newline @
            ''_cell_length_a '' @ cell @ newline @
            ''_cell_length_b '' @ cell @ newline @
            ''_cell_length_c '' @ cell @ newline @
            ''_cell_angle_alpha 90'' @ newline @
            ''_cell_angle_beta 90'' @ newline @
            ''_cell_angle_gamma 90'' @ newline\<rparr>)"

fun runQlip_loop :: "nat list \<Rightarrow> u32 \<Rightarrow> CandidateSpec list \<times> u32" where
  "runQlip_loop [] r = ([], r)"
| "runQlip_loop (i # rest) r =
     (case nextFloat (2 / 10) (95 / 100) r of
        (x, r') \<Rightarrow> (case runQlip_loop rest r' of
                     (cs, r'') \<Rightarrow> (stub_candidate i (toFixed4 x) # cs, r'')))"

definition runQlip :: "StubToolClient \<Rightarrow> CandidateSpec list \<times> StubToolClient" where
  "runQlip stub = (case runQlip_loop [1, 2, 3, 4, 5] (rng stub) of
                    (cs, r) \<Rightarrow> (cs, stub\<lparr>rng := r\<rparr>))"

definition baseScores :: "number list" where
  "baseScores = [85 / 100, 72 / 100, 6 / 10, 48 / 100, 35 / 100]"

definition stub_check :: "string \<Rightarrow> bool \<Rightarrow> number option \<Rightarrow> ValidationCheck" where
  "stub_check nm ps v = \<lparr>name = nm, passed = ps, val = v, message = None, severity = None\<rparr>"

definition stub_checks :: "number \<Rightarrow> ValidationCheck list" where
  "stub_checks truthScore =
     [stub_check ''parseable'' True None,
      stub_check ''min_distance'' (truthScore \<ge> 4 / 10) (Some truthScore),
      stub_check ''density_in_range'' (truthScore \<ge> 5 / 10) (Some truthScore),
      stub_check ''charge_neutrality_feasible'' (truthScore \<ge> 55 / 100) (Some truthScore),
      stub_check ''coordination_reasonable'' (truthScore \<ge> 65 / 100) (Some truthScore),
      stub_check ''symmetry_match'' (truthScore \<ge> 7 / 10) (Some truthScore)]"

text \<open>
  The \<open>forEach\<close> of \<open>batchValidate\<close>: the generator, the reports so far and the running
  \<open>truthScores\<close>, \<open>failureHistogram\<close>, \<open>bestCandidateId\<close>, \<open>bestScore\<close>.
\<close>

fun batchValidate_loop ::
  "CandidateSpec list \<Rightarrow> nat \<Rightarrow> number \<Rightarrow> u32 \<times> ValidationReport list \<times> summarize_state \<Rightarrow>
   u32 \<times> ValidationReport list \<times> summarize_state" where
  "batchValidate_loop [] index thr acc = acc"
| "batchValidate_loop (candidate # rest) index thr
     (r, reports, truthScores, failureHistogram, bestCandidateId, bestScore) =
     (case nextFloat (- (2 / 100)) (2 / 100) r of
        (noise, r') \<Rightarrow>
          (let base = (if index < length baseScores then baseScores ! index else 4 / 10);
               truthScore = clamp (toFixed4 (base + noise));
               cks = stub_checks truthScore
           in batchValidate_loop rest (Suc index) thr
                (r',
                 reports @ [\<lparr>ValidationReport.candidate_id = CandidateSpec.candidate_id candidate,
                              truth_score = truthScore,
                              accept = (truthScore \<ge> thr),
                              checks = cks\<rparr>],
                 obj_assign (CandidateSpec.candidate_id candidate) truthScore truthScores,
                 count_failures cks failureHistogram,
                 (if truthScore > bestScore
                  then CandidateSpec.candidate_id candidate else bestCandidateId),
                 (if truthScore > bestScore then truthScore else bestScore))))"

definition batchValidate ::
  "CandidateSpec list \<Rightarrow> StubToolClient \<Rightarrow>
   (ValidationReport list \<times> ValidationSummary) \<times> StubToolClient" where
  "batchValidate candidates stub =
     (case batchValidate_loop candidates 0 (truthThreshold stub)
             (rng stub, [], [], empty_histogram, [], - 1) of
        (r, reports, truthScores, failureHistogram, bestCandidateId, bestScore) \<Rightarrow>
          (let acc = of_nat (length (filter accept reports))
           in ((reports,
                \<lparr>total = of_nat (length reports),
                 accepted = acc,
                 rejected = of_nat (length reports) - acc,
                 best_candidate_id =
                   (if bestCandidateId \<noteq> [] then bestCandidateId
                    else (case reports of [] \<Rightarrow> []
                          | r0 # _ \<Rightarrow> ValidationReport.candidate_id r0)),
                 truth_scores = truthScores,
                 failure_histogram = failureHistogram,
                 top_candidates =
                   map (\<lambda>kv. \<lparr>TopCandidate.candidate_id = fst kv, truth_score = snd kv\<rparr>)
                     (sort_by_score_desc (Object_entries truthScores))\<rparr>),
               stub\<lparr>rng := r\<rparr>)))"

text \<open>
  \<open>StubToolClient.call\<close>. The methods other than \<open>buildConstraints\<close> and \<open>batchValidate\<close>
  ignore their input; an input of another tool's shape has no \<open>candidates\<close>
  (\<open>batchValidate\<close> then validates nothing) and no \<open>priors\<close> (modelled as an error).
\<close>

definition StubToolClient_call :: "StubToolClient ToolClient" where
  "StubToolClient_call toolName input stub =
     (if toolName = ''materials-data-mcp.suggest_chemistries'' then
        (case suggestChemistries stub of (cs, stub') \<Rightarrow> (Inr (ChemistriesOutput cs), stub'))
      else if toolName = ''materials-data-mcp.fetch_priors'' then
        (case fetchPriors stub of (p, stub') \<Rightarrow> (Inr (PriorsOutput p), stub'))
      else if toolName = ''qlip-mcp.build_constraints'' then
        (case input of
           BuildConstraintsInput chem prs ovr \<Rightarrow>
             (Inr (ConstraintsOutput (buildConstraints chem prs ovr)), stub)
         | _ \<Rightarrow> (Inl (Error ''build_constraints: input without priors''), stub))
      else if toolName = ''qlip-mcp.run_qlip'' then
        (case runQlip stub of (cs, stub') \<Rightarrow> (Inr (CandidatesOutput cs), stub'))
      else if toolName = ''csp-validators-mcp.batch_validate'' then
        (case batchValidate
                (case input of BatchValidateInput cs _ _ _ \<Rightarrow> cs | _ \<Rightarrow> []) stub of
           ((reports, summ), stub') \<Rightarrow> (Inr (ValidationOutput reports (Some summ)), stub'))
      else (Inl (Error (''StubToolClient does not support tool '' @ toolName)), stub))"

section \<open>Hashing the summary (workflows/src/index.ts)\<close>

definition number_object_json :: "number object \<Rightarrow> number json" where
  "number_object_json obj = JObj (map (\<lambda>kv. (fst kv, JNum (snd kv))) obj)"

definition top_candidate_json :: "TopCandidate \<Rightarrow> number json" where
  "top_candidate_json c =
     JObj [(''candidate_id'', JStr (TopCandidate.candidate_id c)),
           (''truth_score'', JNum (TopCandidate.truth_score c))]"

definition summary_json :: "ValidationSummary \<Rightarrow> number json" where
  "summary_json summ =
     JObj [(''total'', JNum (total summ)),
           (''accepted'', JNum (accepted summ)),
           (''rejected'', JNum (rejected summ)),
           (''best_candidate_id'', JStr (best_candidate_id summ)),
           (''truth_scores'', number_object_json (truth_scores summ)),
           (''failure_histogram'', number_object_json (failure_histogram summ)),
           (''top_candidates'', JArr (map top_candidate_json (top_candidates summ)))]"

definition computeSummaryHash :: "platform \<Rightarrow> ValidationSummary \<Rightarrow> string" where
  "computeSummaryHash pf summ =
     sha256Hex pf (stableStringify (number_to_string pf) (summary_json summ))"

section \<open>Artifact store (artifacts.ts)\<close>

text \<open>
  A run directory holds typed files: a JSON file is the value that \<open>JSON.parse\<close> reads back
  from it, a missing file is \<open>None\<close> or a missing name. The file system maps the path of a
  run directory to its contents; a directory that was never written is empty. Paths are
  joined with a slash, without the normalisation of \<open>path.join\<close>.
\<close>

record IterationArtifact =
  iteration :: nat
  decision :: IterationDecision
  summary_hash :: string
  chosen_candidate_id :: string
  truth_score :: number

record RunDir =
  run_manifest_json :: "RunManifest option"
  constraints_json :: "ConstraintsSpec option"
  events_jsonl :: "(number json) list"
  candidates_files :: "string object"
  validation_reports :: "ValidationReport object"
  validation_summary_json :: "ValidationSummary option"
  iteration_files :: "IterationArtifact object"
  exports_files :: "string object"

definition empty_RunDir :: RunDir where
  "empty_RunDir =
     \<lparr>run_manifest_json = None, constraints_json = None, events_jsonl = [],
      candidates_files = [], validation_reports = [], validation_summary_json = None,
      iteration_files = [], exports_files = []\<rparr>"

type_synonym filesystem = "string \<Rightarrow> RunDir"

definition empty_filesystem :: filesystem where
  "empty_filesystem = (\<lambda>_. empty_RunDir)"

record RunPaths =
  runDir :: string
  manifestPath :: string
  constraintsPath :: string
  eventsPath :: string
  candidatesDir :: string
  validationDir :: string
  exportsDir :: string

definition path_join :: "string \<Rightarrow> string \<Rightarrow> string" where
  "path_join a b = a @ ''/'' @ b"

definition getRunPaths :: "string \<Rightarrow> string \<Rightarrow> RunPaths" where
  "getRunPaths workspaceDir runId =
     (let rd = path_join (path_join workspaceDir ''runs'') runId
      in \<lparr>runDir = rd,
          manifestPath = path_join rd ''run_manifest.json'',
          constraintsPath = path_join rd ''constraints.json'',
          eventsPath = path_join rd ''events.jsonl'',
          candidatesDir = path_join rd ''candidates'',
          validationDir = path_join rd ''validation'',
          exportsDir = path_join rd ''exports''\<rparr>)"

definition update_dir :: "RunPaths \<Rightarrow> (RunDir \<Rightarrow> RunDir) \<Rightarrow> filesystem \<Rightarrow> filesystem" where
  "update_dir paths f fsys = fsys (runDir paths := f (fsys (runDir paths)))"

definition ensureRunDirectories :: "RunPaths \<Rightarrow> filesystem \<Rightarrow> filesystem" where
  "ensureRunDirectories paths fsys = fsys"

definition appendEvent :: "RunPaths \<Rightarrow> number json \<Rightarrow> filesystem \<Rightarrow> filesystem" where
  "appendEvent paths ev fsys = update_dir paths (\<lambda>d. d\<lparr>events_jsonl := events_jsonl d @ [ev]\<rparr>) fsys"

definition writeManifest :: "RunPaths \<Rightarrow> RunManifest \<Rightarrow> filesystem \<Rightarrow> filesystem" where
  "writeManifest paths manifest fsys =
     update_dir paths (\<lambda>d. d\<lparr>run_manifest_json := Some manifest\<rparr>) fsys"

definition writeConstraints :: "RunPaths \<Rightarrow> ConstraintsSpec \<Rightarrow> filesystem \<Rightarrow> filesystem" where
  "writeConstraints paths constraints fsys =
     update_dir paths (\<lambda>d. d\<lparr>constraints_json := Some constraints\<rparr>) fsys"

definition writeCandidates :: "RunPaths \<Rightarrow> CandidateSpec list \<Rightarrow> filesystem \<Rightarrow> filesystem" where
  "writeCandidates paths candidates fsys =
     update_dir paths (\<lambda>d. d\<lparr>candidates_files :=
       foldl (\<lambda>files c. obj_set (CandidateSpec.candidate_id c @ ''.cif'') (content c) files)
         (candidates_files d) candidates\<rparr>) fsys"

definition writeValidationReports ::
  "RunPaths \<Rightarrow> ValidationReport list \<Rightarrow> ValidationSummary \<Rightarrow> filesystem \<Rightarrow> filesystem" where
  "writeValidationReports paths reports summ fsys =
     update_dir paths (\<lambda>d. d\<lparr>validation_reports :=
       foldl (\<lambda>files r. obj_set (''report_'' @ ValidationReport.candidate_id r @ ''.json'') r files)
         (validation_reports d) reports,
       validation_summary_json := Some summ\<rparr>) fsys"

definition writeIterationArtifact ::
  "RunPaths \<Rightarrow> nat \<Rightarrow> IterationArtifact \<Rightarrow> filesystem \<Rightarrow> filesystem" where
  "writeIterationArtifact paths iter artifact fsys =
     update_dir paths (\<lambda>d. d\<lparr>iteration_files :=
       obj_set (''iteration_'' @ nat_to_string iter @ ''.json'') artifact (iteration_files d)\<rparr>) fsys"

definition writeExports ::
  "RunPaths \<Rightarrow> (string \<times> string \<times> string) list \<Rightarrow> filesystem \<Rightarrow> filesystem" where
  "writeExports paths exportsList fsys =
     update_dir paths (\<lambda>d. d\<lparr>exports_files :=
       foldl (\<lambda>files e. obj_set (fst e @ ''.'' @ snd (snd e)) (fst (snd e)) files)
         (exports_files d) exportsList\<rparr>) fsys"


definition endsWith :: "string \<Rightarrow> string \<Rightarrow> bool" where
  "endsWith s suffix = (length suffix \<le> length s \<and> drop (length s - length suffix) s = suffix)"

text \<open>\<open>readdir\<close>, keep the names ending in \<open>.cif\<close>, strip that suffix, sort.\<close>

definition listCandidateIds :: "RunPaths \<Rightarrow> filesystem \<Rightarrow> string list" where
  "listCandidateIds paths fsys =
     sort (map (\<lambda>n. take (length n - 4) n)
            (filter (\<lambda>n. endsWith n ''.cif'') (map fst (candidates_files (fsys (runDir paths))))))"

definition readCandidateContent :: "RunPaths \<Rightarrow> string \<Rightarrow> filesystem \<Rightarrow> js_error + string" where
  "readCandidateContent paths candidateId fsys =
     (case obj_get (candidates_files (fsys (runDir paths))) (candidateId @ ''.cif'') of
        None \<Rightarrow> Inl (Error ''ENOENT: no such file or directory'')
      | Some c \<Rightarrow> Inr c)"

definition readValidationSummary :: "RunPaths \<Rightarrow> filesystem \<Rightarrow> js_error + ValidationSummary" where
  "readValidationSummary paths fsys =
     (case validation_summary_json (fsys (runDir paths)) of
        None \<Rightarrow> Inl (Error ''ENOENT: no such file or directory'')
      | Some summ \<Rightarrow> Inr summ)"

definition readConstraints :: "RunPaths \<Rightarrow> filesystem \<Rightarrow> js_error + ConstraintsSpec" where
  "readConstraints paths fsys =
     (case constraints_json (fsys (runDir paths)) of
        None \<Rightarrow> Inl (Error ''ENOENT: no such file or directory'')
      | Some c \<Rightarrow> Inr c)"

definition readManifest :: "RunPaths \<Rightarrow> filesystem \<Rightarrow> js_error + RunManifest" where
  "readManifest paths fsys =
     (case run_manifest_json (fsys (runDir paths)) of
        None \<Rightarrow> Inl (Error ''ENOENT: no such file or directory'')
      | Some m \<Rightarrow> Inr m)"

section \<open>Workflows (workflows/src/index.ts)\<close>

text \<open>
  A workflow takes the file system and the state of the tool client and returns both with its
  result; an exception is the left summand, and the writes made before it stay. The
  timestamps that the code reads from the clock are arguments. \<open>call<T>\<close> is \<open>call_as\<close>: a
  tool output of another shape than the call site expects is modelled as a \<open>TypeError\<close>.
\<close>

fun as_chemistries :: "tool_output \<Rightarrow> ChemistrySuggestion list option" where
  "as_chemistries (ChemistriesOutput cs) = Some cs"
| "as_chemistries _ = None"

fun as_priors :: "tool_output \<Rightarrow> ChemistryPriors option" where
  "as_priors (PriorsOutput p) = Some p"
| "as_priors _ = None"

fun as_constraints :: "tool_output \<Rightarrow> ConstraintsSpec option" where
  "as_constraints (ConstraintsOutput c) = Some c"
| "as_constraints _ = None"

fun as_candidates :: "tool_output \<Rightarrow> CandidateSpec list option" where
  "as_candidates (CandidatesOutput cs) = Some cs"
| "as_candidates _ = None"

fun as_validation :: "tool_output \<Rightarrow> (ValidationReport list \<times> ValidationSummary option) option" where
  "as_validation (ValidationOutput reports summ) = Some (reports, summ)"
| "as_validation _ = None"

definition call_as ::
  "(tool_output \<Rightarrow> 'a option) \<Rightarrow> 's ToolClient \<Rightarrow> string \<Rightarrow> tool_input \<Rightarrow> 's \<Rightarrow>
   (js_error + 'a) \<times> 's" where
  "call_as proj client toolName input cst =
     (case client toolName input cst of
        (Inl e, cst') \<Rightarrow> (Inl e, cst')
      | (Inr out, cst') \<Rightarrow>
          (case proj out of
             Some x \<Rightarrow> (Inr x, cst')
           | None \<Rightarrow> (Inl (Error ''TypeError: unexpected tool output''), cst')))"

record DiscoverInput =
  objective :: string
  chem_system :: "string option"
  workspace_dir :: string
  seed :: int
  config :: CspConfig

record IterateInput =
  run_id :: string
  workspace_dir :: string
  seed :: int
  config :: CspConfig

record ValidateInput =
  run_id :: string
  workspace_dir :: string
  seed :: int
  config :: CspConfig

datatype ExportFormat = cif | poscar

record ExportInput =
  run_id :: string
  workspace_dir :: string
  format :: ExportFormat
  top_k :: int

fun status_string :: "RunStatus \<Rightarrow> string" where
  "status_string running = ''running''"
| "status_string ok = ''ok''"
| "status_string error = ''error''"

fun solver_string :: "QlipSolver \<Rightarrow> string" where
  "solver_string gurobi = ''gurobi''"
| "solver_string cbc = ''cbc''"
| "solver_string highs = ''highs''"

definition createRunId :: "int \<Rightarrow> string \<Rightarrow> string" where
  "createRunId sd obj =
     ''run_'' @ int_to_string sd @ ''_'' @
     fst (nextHex 8 (new_SeededRng (uint ((word_of_int sd :: u32) XOR seedFromString obj))))"

definition selectChemistry :: "ChemistrySuggestion list \<Rightarrow> int \<Rightarrow> string" where
  "selectChemistry suggestions sd =
     (if suggestions = [] then ''unknown''
      else (case nextInt 0 (int (length suggestions) - 1)
                   (new_SeededRng (uint ((word_of_int sd :: u32) XOR 0x3f1c2b))) of
              (index, _) \<Rightarrow> ChemistrySuggestion.chem_system (suggestions ! nat index)))"

definition ensureManifest :: "RunPaths \<Rightarrow> RunManifest \<Rightarrow> filesystem \<Rightarrow> filesystem" where
  "ensureManifest paths manifest fsys =
     appendEvent paths
       (JObj [(''event'', JStr ''run_manifest''),
              (''run_id'', JStr (RunManifest.run_id manifest)),
              (''status'', JStr (status_string (RunManifest.status manifest)))])
       (writeManifest paths manifest fsys)"

text \<open>\<open>validationResult.summary ? validationResult.summary : summarizeValidation(...)\<close>\<close>

definition summary_or_recompute ::
  "ValidationReport list \<Rightarrow> ValidationSummary option \<Rightarrow> number \<Rightarrow> ValidationSummary" where
  "summary_or_recompute reports supplied thr =
     (case supplied of Some summ \<Rightarrow> summ | None \<Rightarrow> summarizeValidation reports thr)"

definition runCspDiscover ::
  "platform \<Rightarrow> 's ToolClient \<Rightarrow> DiscoverInput \<Rightarrow> string \<Rightarrow> string \<Rightarrow> filesystem \<times> 's \<Rightarrow>
   (js_error + CspRunResult) \<times> filesystem \<times> 's" where
  "runCspDiscover pf client inp now1 now2 world =
   (case world of (fsys0, cst0) \<Rightarrow>
    (let runId = createRunId (DiscoverInput.seed inp) (DiscoverInput.objective inp);
         paths = getRunPaths (DiscoverInput.workspace_dir inp) runId;
         provided = (case DiscoverInput.chem_system inp of Some c \<Rightarrow> c | None \<Rightarrow> []);
         thr = truth_accept_threshold (policy (DiscoverInput.config inp));
         manifest =
           \<lparr>RunManifest.run_id = runId,
            status = running,
            objective = DiscoverInput.objective inp,
            chem_system = (if provided \<noteq> [] then provided else ''pending''),
            seed = DiscoverInput.seed inp,
            created_at = now1,
            updated_at = now1,
            iteration = 0,
            max_iters = PolicyConfig.max_iters (policy (DiscoverInput.config inp)),
            selected_candidate_id = None,
            truth_score = None,
            config_snapshot = DiscoverInput.config inp\<rparr>;
         fsys1 = appendEvent paths
                   (JObj [(''event'', JStr ''run_started''), (''run_id'', JStr runId),
                          (''objective'', JStr (DiscoverInput.objective inp))])
                   (ensureManifest paths manifest (ensureRunDirectories paths fsys0))
     in case (if provided \<noteq> []
              then (Inr [\<lparr>ChemistrySuggestion.chem_system = provided,
                          rationale = ''provided'', confidence = 1\<rparr>], cst0)
              else call_as as_chemistries client ''materials-data-mcp.suggest_chemistries''
                     (SuggestChemistriesInput (DiscoverInput.objective inp) (DiscoverInput.seed inp))
                     cst0) of
          (Inl e, cst1) \<Rightarrow> (Inl e, fsys1, cst1)
        | (Inr chemistries, cst1) \<Rightarrow>
       (let selectedChemistry =
              (if provided \<noteq> [] then provided
               else selectChemistry chemistries (DiscoverInput.seed inp))
        in case call_as as_priors client ''materials-data-mcp.fetch_priors''
                  (FetchPriorsInput selectedChemistry (DiscoverInput.seed inp)) cst1 of
          (Inl e, cst2) \<Rightarrow> (Inl e, fsys1, cst2)
        | (Inr prs, cst2) \<Rightarrow>
       (case call_as as_constraints client ''qlip-mcp.build_constraints''
               (BuildConstraintsInput selectedChemistry prs
                  [(''solver'', JStr (solver_string (solver (qlip (DiscoverInput.config inp))))),
                   (''max_atoms'', JNum (max_atoms (qlip (DiscoverInput.config inp))))]) cst2 of
          (Inl e, cst3) \<Rightarrow> (Inl e, fsys1, cst3)
        | (Inr constraints, cst3) \<Rightarrow>
       (let fsys2 = writeConstraints paths constraints fsys1
        in case call_as as_candidates client ''qlip-mcp.run_qlip''
                  (RunQlipInput constraints (DiscoverInput.seed inp) runId None) cst3 of
          (Inl e, cst4) \<Rightarrow> (Inl e, fsys2, cst4)
        | (Inr candidates, cst4) \<Rightarrow>
       (let fsys3 = writeCandidates paths candidates fsys2
        in case call_as as_validation client ''csp-validators-mcp.batch_validate''
                  (BatchValidateInput candidates constraints (DiscoverInput.seed inp) thr) cst4 of
          (Inl e, cst5) \<Rightarrow> (Inl e, fsys3, cst5)
        | (Inr validationResult, cst5) \<Rightarrow>
       (let summ = summary_or_recompute (fst validationResult) (snd validationResult) thr;
            fsys4 = writeValidationReports paths (fst validationResult) summ fsys3;
            summaryHash = computeSummaryHash pf summ;
            chosenCandidateId = best_candidate_id summ;
            truthScore = or_zero (obj_get (truth_scores summ) chosenCandidateId);
            updatedManifest = manifest
              \<lparr>RunManifest.status := ok,
               RunManifest.chem_system := selectedChemistry,
               updated_at := now2,
               selected_candidate_id := Some chosenCandidateId,
               RunManifest.truth_score := Some truthScore\<rparr>;
            fsys5 = ensureManifest paths updatedManifest fsys4
        in (Inr \<lparr>CspRunResult.run_id = runId,
                 status = ok,
                 workspace_dir = DiscoverInput.workspace_dir inp,
                 run_dir = runDir paths,
                 selected_chemistry = selectedChemistry,
                 chosen_candidate_id = chosenCandidateId,
                 truth_score = truthScore,
                 candidate_ids = map CandidateSpec.candidate_id candidates,
                 summary_hash = summaryHash,
                 iteration = 0\<rparr>,
            fsys5, cst5))))))))"

definition runCspIterate ::
  "platform \<Rightarrow> 's ToolClient \<Rightarrow> IterateInput \<Rightarrow> string \<Rightarrow> filesystem \<times> 's \<Rightarrow>
   (js_error + CspRunResult) \<times> filesystem \<times> 's" where
  "runCspIterate pf client inp now1 world =
   (case world of (fsys0, cst0) \<Rightarrow>
    (let paths = getRunPaths (IterateInput.workspace_dir inp) (IterateInput.run_id inp);
         thr = truth_accept_threshold (policy (IterateInput.config inp))
     in case readManifest paths fsys0 of
          Inl e \<Rightarrow> (Inl e, fsys0, cst0)
        | Inr manifest \<Rightarrow>
       (case readValidationSummary paths fsys0 of
          Inl e \<Rightarrow> (Inl e, fsys0, cst0)
        | Inr previousSummary \<Rightarrow>
       (case readConstraints paths fsys0 of
          Inl e \<Rightarrow> (Inl e, fsys0, cst0)
        | Inr previousConstraints \<Rightarrow>
       (let nextIteration = RunManifest.iteration manifest + 1
        in if int nextIteration > PolicyConfig.max_iters (policy (IterateInput.config inp))
           then (Inl (Error (''Max iterations reached ('' @
                             nat_to_string (RunManifest.iteration manifest) @ ''/'' @
                             int_to_string (PolicyConfig.max_iters (policy (IterateInput.config inp))) @
                             '')'')),
                 fsys0, cst0)
           else
       (let dec = decideIteration previousSummary (policy (IterateInput.config inp)) nextIteration;
            nextConstraints = applyIterationDecision previousConstraints dec nextIteration;
            fsys1 = writeConstraints paths nextConstraints fsys0
        in case call_as as_candidates client ''qlip-mcp.run_qlip''
                  (RunQlipInput nextConstraints (IterateInput.seed inp) (IterateInput.run_id inp)
                     (Some nextIteration)) cst0 of
          (Inl e, cst1) \<Rightarrow> (Inl e, fsys1, cst1)
        | (Inr candidates, cst1) \<Rightarrow>
       (let fsys2 = writeCandidates paths candidates fsys1
        in case call_as as_validation client ''csp-validators-mcp.batch_validate''
                  (BatchValidateInput candidates nextConstraints (IterateInput.seed inp) thr) cst1 of
          (Inl e, cst2) \<Rightarrow> (Inl e, fsys2, cst2)
        | (Inr validationResult, cst2) \<Rightarrow>
       (let summ = summary_or_recompute (fst validationResult) (snd validationResult) thr;
            fsys3 = writeValidationReports paths (fst validationResult) summ fsys2;
            summaryHash = computeSummaryHash pf summ;
            chosenCandidateId = best_candidate_id summ;
            truthScore = or_zero (obj_get (truth_scores summ) chosenCandidateId);
            fsys4 = writeIterationArtifact paths nextIteration
              \<lparr>IterationArtifact.iteration = nextIteration,
               decision = dec,
               summary_hash = summaryHash,
               chosen_candidate_id = chosenCandidateId,
               truth_score = truthScore\<rparr> fsys3;
            updatedManifest = manifest
              \<lparr>RunManifest.iteration := nextIteration,
               updated_at := now1,
               selected_candidate_id := Some chosenCandidateId,
               RunManifest.truth_score := Some truthScore,
               RunManifest.status := ok\<rparr>;
            fsys5 = ensureManifest paths updatedManifest fsys4
        in (Inr \<lparr>CspRunResult.run_id = IterateInput.run_id inp,
                 status = ok,
                 workspace_dir = IterateInput.workspace_dir inp,
                 run_dir = runDir paths,
                 selected_chemistry = RunManifest.chem_system manifest,
                 chosen_candidate_id = chosenCandidateId,
                 truth_score = truthScore,
                 candidate_ids = map CandidateSpec.candidate_id candidates,
                 summary_hash = summaryHash,
                 iteration = nextIteration\<rparr>,
            fsys5, cst2)))))))))"

text \<open>The loop of \<open>runCspValidate\<close> that rebuilds the candidates from the files.\<close>

fun read_candidates :: "RunPaths \<Rightarrow> filesystem \<Rightarrow> string list \<Rightarrow> js_error + CandidateSpec list" where
  "read_candidates paths fsys [] = Inr []"
| "read_candidates paths fsys (candidateId # rest) =
     (case readCandidateContent paths candidateId fsys of
        Inl e \<Rightarrow> Inl e
      | Inr c \<Rightarrow>
          (case read_candidates paths fsys rest of
             Inl e \<Rightarrow> Inl e
           | Inr cs \<Rightarrow> Inr (\<lparr>CandidateSpec.candidate_id = candidateId, score = 0,
                             format = ''cif'', content = c\<rparr> # cs)))"

definition runCspValidate ::
  "platform \<Rightarrow> 's ToolClient \<Rightarrow> ValidateInput \<Rightarrow> filesystem \<times> 's \<Rightarrow>
   (js_error + ValidationSummary \<times> string) \<times> filesystem \<times> 's" where
  "runCspValidate pf client inp world =
   (case world of (fsys0, cst0) \<Rightarrow>
    (let paths = getRunPaths (ValidateInput.workspace_dir inp) (ValidateInput.run_id inp);
         thr = truth_accept_threshold (policy (ValidateInput.config inp))
     in case readConstraints paths fsys0 of
          Inl e \<Rightarrow> (Inl e, fsys0, cst0)
        | Inr constraints \<Rightarrow>
       (case read_candidates paths fsys0 (listCandidateIds paths fsys0) of
          Inl e \<Rightarrow> (Inl e, fsys0, cst0)
        | Inr candidates \<Rightarrow>
       (case call_as as_validation client ''csp-validators-mcp.batch_validate''
               (BatchValidateInput candidates constraints (ValidateInput.seed inp) thr) cst0 of
          (Inl e, cst1) \<Rightarrow> (Inl e, fsys0, cst1)
        | (Inr validationResult, cst1) \<Rightarrow>
       (let summ = summary_or_recompute (fst validationResult) (snd validationResult) thr;
            fsys1 = writeValidationReports paths (fst validationResult) summ fsys0
        in (Inr (summ, computeSummaryHash pf summ), fsys1, cst1))))))"

text \<open>
  The loop of \<open>runCspExport\<close>: the exports list (id, content, extension) and the results.
\<close>

fun export_entries ::
  "RunPaths \<Rightarrow> filesystem \<Rightarrow> ExportFormat \<Rightarrow> string list \<Rightarrow>
   js_error + (string \<times> string \<times> string) list \<times> ExportResult list" where
  "export_entries paths fsys fmt [] = Inr ([], [])"
| "export_entries paths fsys fmt (candidateId # rest) =
     (case readCandidateContent paths candidateId fsys of
        Inl e \<Rightarrow> Inl e
      | Inr c \<Rightarrow>
          (let extension = (if fmt = poscar then ''poscar'' else ''cif'');
               exportedContent =
                 (if fmt = poscar then ''# POSCAR placeholder for '' @ candidateId @ newline @ c
                  else c)
           in case export_entries paths fsys fmt rest of
                Inl e \<Rightarrow> Inl e
              | Inr (exportsList, results) \<Rightarrow>
                  Inr ((candidateId, exportedContent, extension) # exportsList,
                       \<lparr>ExportResult.candidate_id = candidateId,
                        path = exportsDir paths @ ''/'' @ candidateId @ ''.'' @ extension\<rparr>
                       # results)))"

text \<open>
  The \<open>try\<close>/\<open>catch\<close> of \<open>runCspExport\<close>: the order of the summary's
  \<open>top_candidates\<close>, or the sorted listing of the candidate files when the summary cannot
  be read.
\<close>

definition candidateOrder :: "RunPaths \<Rightarrow> filesystem \<Rightarrow> string list" where
  "candidateOrder paths fsys =
     (case readValidationSummary paths fsys of
        Inr summ \<Rightarrow> map TopCandidate.candidate_id (top_candidates summ)
      | Inl _ \<Rightarrow> listCandidateIds paths fsys)"

definition runCspExport ::
  "ExportInput \<Rightarrow> filesystem \<Rightarrow> (js_error + ExportResult list) \<times> filesystem" where
  "runCspExport inp fsys =
    (let paths = getRunPaths (ExportInput.workspace_dir inp) (ExportInput.run_id inp);
         selected = take (nat (max 1 (ExportInput.top_k inp))) (candidateOrder paths fsys)
     in case export_entries paths fsys (ExportInput.format inp) selected of
          Inl e \<Rightarrow> (Inl e, fsys)
        | Inr (exportsList, results) \<Rightarrow> (Inr results, writeExports paths exportsList fsys))"

section \<open>Command dispatch (cli/src/index.ts)\<close>

text \<open>
  \<open>runCspCli\<close> from its \<open>try\<close> block on: the command, the flag values already read from
  the arguments (\<open>toOptionalInt\<close> applied to \<open>--top-k\<close>, the elements of \<open>--chem-system\<close>
  joined), the seed, the resolved configuration and the workspace directory are arguments.
  The result is the exit code, the chunks written to standard output, and the world.
\<close>

record CliFlags =
  objective :: "string option"
  chem_system :: "string option"
  run_id :: "string option"
  top_k :: "int option"
  format :: "string option"

definition writeJson :: "platform \<Rightarrow> number json \<Rightarrow> string list \<Rightarrow> string list" where
  "writeJson pf payload out = out @ [JSON_stringify (number_to_string pf) payload @ newline]"

definition writeError :: "platform \<Rightarrow> string \<Rightarrow> string \<Rightarrow> number \<Rightarrow> string list \<Rightarrow> string list" where
  "writeError pf command msg exitCode out =
     writeJson pf
       (JObj [(''command'', JStr command), (''status'', JStr ''error''),
              (''error'', JStr msg), (''exit_code'', JNum exitCode)]) out"

definition run_result_entries :: "CspRunResult \<Rightarrow> (number json) object" where
  "run_result_entries res =
     [(''run_id'', JStr (CspRunResult.run_id res)),
      (''status'', JStr (status_string (CspRunResult.status res))),
      (''workspace_dir'', JStr (CspRunResult.workspace_dir res)),
      (''run_dir'', JStr (run_dir res)),
      (''selected_chemistry'', JStr (selected_chemistry res)),
      (''chosen_candidate_id'', JStr (CspRunResult.chosen_candidate_id res)),
      (''truth_score'', JNum (CspRunResult.truth_score res)),
      (''candidate_ids'', JArr (map JStr (candidate_ids res))),
      (''summary_hash'', JStr (CspRunResult.summary_hash res)),
      (''iteration'', JNum (of_nat (CspRunResult.iteration res)))]"

text \<open>\<open>{ command, status: 'ok', ...result }\<close>\<close>

definition run_result_payload :: "string \<Rightarrow> CspRunResult \<Rightarrow> number json" where
  "run_result_payload command res =
     JObj (foldl (\<lambda>obj kv. obj_set (fst kv) (snd kv) obj)
             [(''command'', JStr command), (''status'', JStr ''ok'')]
             (run_result_entries res))"

text \<open>\<open>xs.slice(0, k)\<close>: a negative \<open>k\<close> counts from the end.\<close>

definition slice0 :: "int \<Rightarrow> 'a list \<Rightarrow> 'a list" where
  "slice0 k xs = (if k < 0 then take (nat (int (length xs) + k)) xs else take (nat k) xs)"

definition truthy :: "string option \<Rightarrow> bool" where
  "truthy v = (case v of None \<Rightarrow> False | Some x \<Rightarrow> x \<noteq> [])"

definition runCspCli_try ::
  "platform \<Rightarrow> 's ToolClient \<Rightarrow> string \<Rightarrow> CliFlags \<Rightarrow> int \<Rightarrow> CspConfig \<Rightarrow> string \<Rightarrow>
   string \<Rightarrow> string \<Rightarrow> string list \<times> filesystem \<times> 's \<Rightarrow> int \<times> string list \<times> filesystem \<times> 's" where
  "runCspCli_try pf client command flags sd cfg workspaceDir now1 now2 w =
   (case w of (out, fsys, cst) \<Rightarrow>
    if command = ''csp:discover'' then
      (if \<not> truthy (CliFlags.objective flags)
       then (1, writeError pf command ''Missing required --objective'' 1 out, fsys, cst)
       else (case runCspDiscover pf client
                    \<lparr>DiscoverInput.objective = the (CliFlags.objective flags),
                     chem_system = (if truthy (CliFlags.chem_system flags)
                                    then CliFlags.chem_system flags else None),
                     workspace_dir = workspaceDir, seed = sd, config = cfg\<rparr>
                    now1 now2 (fsys, cst) of
               (Inr res, fsys', cst') \<Rightarrow>
                 (0, writeJson pf (run_result_payload command res) out, fsys', cst')
             | (Inl e, fsys', cst') \<Rightarrow>
                 (1, writeError pf command (error_message e) 1 out, fsys', cst')))
    else if command = ''csp:iterate'' then
      (if \<not> truthy (CliFlags.run_id flags)
       then (1, writeError pf command ''Missing required --run-id'' 1 out, fsys, cst)
       else (case runCspIterate pf client
                    \<lparr>IterateInput.run_id = the (CliFlags.run_id flags),
                     workspace_dir = workspaceDir, seed = sd, config = cfg\<rparr>
                    now1 (fsys, cst) of
               (Inr res, fsys', cst') \<Rightarrow>
                 (0, writeJson pf (run_result_payload command res) out, fsys', cst')
             | (Inl e, fsys', cst') \<Rightarrow>
                 (1, writeError pf command (error_message e) 1 out, fsys', cst')))
    else if command = ''csp:validate'' then
      (if \<not> truthy (CliFlags.run_id flags)
       then (1, writeError pf command ''Missing required --run-id'' 1 out, fsys, cst)
       else (let topK = (case CliFlags.top_k flags of None \<Rightarrow> 20 | Some k \<Rightarrow> k)
             in case runCspValidate pf client
                    \<lparr>ValidateInput.run_id = the (CliFlags.run_id flags),
                     workspace_dir = workspaceDir, seed = sd, config = cfg\<rparr>
                    (fsys, cst) of
               (Inr res, fsys', cst') \<Rightarrow>
                 (0, writeJson pf
                       (JObj [(''command'', JStr command), (''status'', JStr ''ok''),
                              (''run_id'', JStr (the (CliFlags.run_id flags))),
                              (''workspace_dir'', JStr workspaceDir),
                              (''summary_hash'', JStr (snd res)),
                              (''best_candidate_id'', JStr (best_candidate_id (fst res))),
                              (''top_k'', JNum (of_int topK)),
                              (''top_candidates'',
                                 JArr (map top_candidate_json
                                        (slice0 topK (top_candidates (fst res)))))]) out,
                  fsys', cst')
             | (Inl e, fsys', cst') \<Rightarrow>
                 (1, writeError pf command (error_message e) 1 out, fsys', cst')))
    else if command = ''csp:export'' then
      (if \<not> truthy (CliFlags.run_id flags)
       then (1, writeError pf command ''Missing required --run-id'' 1 out, fsys, cst)
       else (let fmt = (if CliFlags.format flags = Some ''poscar'' then poscar else cif);
                 topK = (case CliFlags.top_k flags of None \<Rightarrow> 20 | Some k \<Rightarrow> k)
             in case runCspExport
                    \<lparr>ExportInput.run_id = the (CliFlags.run_id flags),
                     workspace_dir = workspaceDir, format = fmt, top_k = topK\<rparr> fsys of
               (Inr exportsList, fsys') \<Rightarrow>
                 (0, writeJson pf
                       (JObj [(''command'', JStr command), (''status'', JStr ''ok''),
                              (''run_id'', JStr (the (CliFlags.run_id flags))),
                              (''workspace_dir'', JStr workspaceDir),
                              (''format'', JStr (if fmt = poscar then ''poscar'' else ''cif'')),
                              (''top_k'', JNum (of_int topK)),
                              (''exports'',
                                 JArr (map (\<lambda>r. JObj [(''candidate_id'',
                                                          JStr (ExportResult.candidate_id r)),
                                                        (''path'', JStr (path r))])
                                        exportsList))]) out,
                  fsys', cst)
             | (Inl e, fsys') \<Rightarrow>
                 (1, writeError pf command (error_message e) 1 out, fsys', cst)))
    else (1, writeError pf command (''Unsupported command '' @ command) 1 out, fsys, cst))"

text \<open>
  \<open>--dry-run\<close>: the client is a \<open>StubToolClient\<close> built from the seed and the
  configuration's acceptance threshold.
\<close>

definition runCspCli_dry_run ::
  "platform \<Rightarrow> string \<Rightarrow> CliFlags \<Rightarrow> int \<Rightarrow> CspConfig \<Rightarrow> string \<Rightarrow> string \<Rightarrow> string \<Rightarrow>
   string list \<times> filesystem \<Rightarrow> int \<times> string list \<times> filesystem \<times> StubToolClient" where
  "runCspCli_dry_run pf command flags sd cfg workspaceDir now1 now2 w =
     runCspCli_try pf StubToolClient_call command flags sd cfg workspaceDir now1 now2
       (fst w, snd w, new_StubToolClient sd (Some (truth_accept_threshold (policy cfg))))"

section \<open>Default configuration (config.ts)\<close>

text \<open>\<open>DEFAULT_CONFIG\<close>; the argument is \<open>process.cwd()\<close>.\<close>

definition DEFAULT_CONFIG :: "string \<Rightarrow> CspConfig" where
  "DEFAULT_CONFIG cwd =
     \<lparr>CspConfig.workspace_dir = cwd,
      mcp = \<lparr>qlip_server = \<lparr>server_name = ''qlip-mcp'', enabled = None\<rparr>,
             materials_data = \<lparr>server_name = ''materials-data-mcp'', enabled = None\<rparr>,
             validators = \<lparr>server_name = ''csp-validators-mcp'', enabled = None\<rparr>,
             surrogate_eval = \<lparr>server_name = ''surrogate-eval-mcp'', enabled = Some False\<rparr>\<rparr>,
      qlip = \<lparr>solver = gurobi, time_limit_s = 3600, max_solutions = 25, max_atoms = 120\<rparr>,
      policy = \<lparr>PolicyConfig.max_iters = 5,
                truth_accept_threshold = 8 / 10,
                relax_order = [''widen_lattice'', ''relax_symmetry'', ''expand_oxidation_states'',
                               ''increase_max_atoms'', ''expand_prototypes''],
                tighten_order = [''increase_min_distance_scale'', ''narrow_density'',
                                 ''restrict_oxidation_states'', ''restrict_prototypes'']\<rparr>\<rparr>"

section \<open>An example run directory\<close>

text \<open>
  A run directory with a manifest at iteration \<open>n\<close>, its constraints, a summary, two
  candidate files and a stray file, and requests on it.
\<close>

definition example_manifest :: "nat \<Rightarrow> RunManifest" where
  "example_manifest n =
     \<lparr>RunManifest.run_id = ''run_1_0badcafe'', status = ok, objective = ''Discover stable oxide'',
      chem_system = ''Ti-O'', seed = 1, created_at = ''2026-01-01T00:00:00.000Z'',
      updated_at = ''2026-01-01T00:00:01.000Z'', iteration = n, max_iters = 5,
      selected_candidate_id = Some ''cand_0002'', truth_score = Some (9 / 10),
      config_snapshot = DEFAULT_CONFIG ''/work''\<rparr>"

definition example_constraints :: ConstraintsSpec where
  "example_constraints =
     \<lparr>ConstraintsSpec.chem_system = ''Ti-O'', priors = PRIOR_TABLE ! 0,
      overrides = Some [(''solver'', JStr ''gurobi''), (''max_atoms'', JNum 120)],
      adjustments = None\<rparr>"

definition example_summary :: ValidationSummary where
  "example_summary =
     \<lparr>total = 2, accepted = 1, rejected = 1, best_candidate_id = ''cand_0002'',
      truth_scores = [(''cand_0001'', 1 / 2), (''cand_0002'', 9 / 10)],
      failure_histogram = empty_histogram,
      top_candidates = [\<lparr>TopCandidate.candidate_id = ''cand_0002'', truth_score = 9 / 10\<rparr>,
                        \<lparr>TopCandidate.candidate_id = ''cand_0001'', truth_score = 1 / 2\<rparr>]\<rparr>"

definition example_paths :: RunPaths where
  "example_paths = getRunPaths ''/work'' ''run_1_0badcafe''"

definition example_filesystem :: "nat \<Rightarrow> ValidationSummary option \<Rightarrow> filesystem" where
  "example_filesystem n summ =
     empty_filesystem (runDir example_paths :=
       empty_RunDir\<lparr>run_manifest_json := Some (example_manifest n),
                    constraints_json := Some example_constraints,
                    candidates_files := [(''cand_0002.cif'', ''data_cand_0002''),
                                         (''cand_0001.cif'', ''data_cand_0001''),
                                         (''notes.txt'', ''scratch'')],
                    validation_summary_json := summ\<rparr>)"

definition example_iterate_input :: IterateInput where
  "example_iterate_input =
     \<lparr>IterateInput.run_id = ''run_1_0badcafe'', workspace_dir = ''/work'', seed = 1,
      config = DEFAULT_CONFIG ''/work''\<rparr>"


section \<open>The stub's validation summary\<close>

text \<open>
  The ids of the five candidates of \<open>run_qlip\<close>, and the summary that \<open>batch_validate\<close> of the
  stub returns for candidates with these ids when the stub is in a given state (the scores
  and contents of the candidates do not enter it).
\<close>

definition stub_ids :: "string list" where
  "stub_ids = [''cand_0001'', ''cand_0002'', ''cand_0003'', ''cand_0004'', ''cand_0005'']"

definition candidate_named :: "string \<Rightarrow> CandidateSpec" where
  "candidate_named i = \<lparr>CandidateSpec.candidate_id = i, score = 0, format = ''cif'', content = []\<rparr>"

definition stub_summary :: "StubToolClient \<Rightarrow> ValidationSummary" where
  "stub_summary stub = snd (fst (batchValidate (map candidate_named stub_ids) stub))"

text \<open>The truth score that the \<open>forEach\<close> of \<open>batchValidate\<close> computes at an index and a generator state.\<close>

definition truth_at :: "nat \<Rightarrow> u32 \<Rightarrow> number" where
  "truth_at index r =
     clamp (toFixed4 ((if index < length baseScores then baseScores ! index else 4 / 10) +
                      fst (nextFloat (- (2 / 100)) (2 / 100) r)))"

text \<open>
  The state of the stub when discovery calls \<open>run_qlip\<close>, and when it calls
  \<open>batch_validate\<close>: after \<open>suggest_chemistries\<close> (unless a chemical system is given),
  \<open>fetch_priors\<close> and \<open>run_qlip\<close>.
\<close>

definition stub_before_qlip :: "DiscoverInput \<Rightarrow> StubToolClient \<Rightarrow> StubToolClient" where
  "stub_before_qlip inp stub =
     snd (fetchPriors (if truthy (DiscoverInput.chem_system inp) then stub
                       else snd (suggestChemistries stub)))"

definition stub_at_validation :: "DiscoverInput \<Rightarrow> StubToolClient \<Rightarrow> StubToolClient" where
  "stub_at_validation inp stub = snd (runQlip (stub_before_qlip inp stub))"


section \<open>Example clients, requests and number printing\<close>

text \<open>
  A validator that answers \<open>batch_validate\<close> with one report and the given summary field,
  and answers no other tool; the summary it may supply names a candidate that is not among
  the reports.
\<close>

definition supplied_summary :: ValidationSummary where
  "supplied_summary =
     \<lparr>total = 1, accepted = 1, rejected = 0, best_candidate_id = ''cand_9999'',
      truth_scores = [(''cand_9999'', 1)], failure_histogram = empty_histogram,
      top_candidates = [\<lparr>TopCandidate.candidate_id = ''cand_9999'', truth_score = 1\<rparr>]\<rparr>"

definition validator_client :: "ValidationSummary option \<Rightarrow> unit ToolClient" where
  "validator_client supplied toolName input cst =
     (if toolName = ''csp-validators-mcp.batch_validate''
      then (Inr (ValidationOutput [report_of ''cand_0001'' (9 / 10)] supplied), cst)
      else (Inl (Error (''Real MCP client not configured for tool '' @ toolName)), cst))"


text \<open>
  The discovery request of \<open>determinism.test.ts\<close> in a given workspace, a validation request
  on the example run directory, and the flags of the two commands.
\<close>

definition example_discover_input :: "string \<Rightarrow> DiscoverInput" where
  "example_discover_input ws =
     \<lparr>DiscoverInput.objective = ''Determinism test'', chem_system = None,
      workspace_dir = ws, seed = 7, config = DEFAULT_CONFIG ws\<rparr>"

definition example_validate_input :: ValidateInput where
  "example_validate_input =
     \<lparr>ValidateInput.run_id = ''run_1_0badcafe'', workspace_dir = ''/work'', seed = 1,
      config = DEFAULT_CONFIG ''/work''\<rparr>"




text \<open>
  A printing of numbers for the examples: the decimal expansion with up to twenty fractional
  digits, trailing zeros dropped, which is what \<open>JSON.stringify\<close> prints for the integers
  and the four-digit decimals that occur in them.
\<close>

definition decimal_string :: "number \<Rightarrow> string" where
  "decimal_string x =
     (let a = \<bar>x\<bar>;
          digits = map (\<lambda>k. digit_char (nat (\<lfloor>a * 10 ^ k\<rfloor> mod 10)))
                     [1, 2, 3, 4, 5, 6, 7, 8, 9, 10, 11, 12, 13, 14, 15, 16, 17, 18, 19, 20 :: nat];
          frac = rev (dropWhile (\<lambda>c. c = CHR ''0'') (rev digits))
      in (if x < 0 then ''-'' else []) @ nat_to_string (nat \<lfloor>a\<rfloor>) @
         (if frac = [] then [] else ''.'' @ frac))"

definition decimal_platform :: "(string \<Rightarrow> string) \<Rightarrow> platform" where
  "decimal_platform H = \<lparr>sha256Hex = H, number_to_string = decimal_string\<rparr>"

text \<open>
  The discovery request of \<open>csp-cli-dry-run.test.ts\<close>, the validation request on the run it
  creates, and a summary of five candidates of which the first is accepted.
\<close>

definition dry_run_discover_input :: DiscoverInput where
  "dry_run_discover_input =
     \<lparr>DiscoverInput.objective = ''Discover stable oxide'', chem_system = None,
      workspace_dir = ''/work'', seed = 1, config = DEFAULT_CONFIG ''/work''\<rparr>"

definition validate_input_after :: "int \<Rightarrow> CspRunResult \<Rightarrow> ValidateInput" where
  "validate_input_after sd res =
     \<lparr>ValidateInput.run_id = CspRunResult.run_id res, workspace_dir = ''/work'', seed = sd,
      config = DEFAULT_CONFIG ''/work''\<rparr>"

definition summary_with_scores :: "number list \<Rightarrow> ValidationSummary" where
  "summary_with_scores xs =
     \<lparr>total = 5, accepted = 1, rejected = 4, best_candidate_id = ''cand_0001'',
      truth_scores = zip stub_ids xs,
      failure_histogram =
        [(''parseable'', 0), (''min_distance'', 1), (''density_in_range'', 2),
         (''charge_neutrality_feasible'', 2), (''coordination_reasonable'', 3),
         (''symmetry_match'', 3)],
      top_candidates =
        map (\<lambda>kv. \<lparr>TopCandidate.candidate_id = fst kv, truth_score = snd kv\<rparr>) (zip stub_ids xs)\<rparr>"


text \<open>The fields of a run result that hold neither a path nor a time.\<close>

definition key_fields ::
  "CspRunResult \<Rightarrow> string \<times> string \<times> string \<times> number \<times> string list \<times> string \<times> nat" where
  "key_fields res =
     (CspRunResult.run_id res, selected_chemistry res, CspRunResult.chosen_candidate_id res,
      CspRunResult.truth_score res, candidate_ids res, CspRunResult.summary_hash res,
      CspRunResult.iteration res)"


section \<open>Properties of the iteration policy\<close>

text \<open>
  C7. For every summary, policy and iteration number, \<open>decideIteration\<close> answers \<open>relax\<close>
  exactly when the failures of \<open>density_in_range\<close>, \<open>charge_neutrality_feasible\<close> and
  \<open>symmetry_match\<close> together are at least those of \<open>min_distance\<close> and
  \<open>coordination_reasonable\<close> (a tie relaxes), otherwise \<open>tighten\<close>; the action is the
  entry of the chosen order list at position \<open>iteration mod length\<close>, or the default
  \<open>widen_lattice\<close> / \<open>increase_min_distance_scale\<close> when that list is empty.
\<close>

theorem decideIteration_spec:
  "(let h = (\<lambda>k. or_zero (obj_get (failure_histogram summary) k));
        R = h ''density_in_range'' + h ''charge_neutrality_feasible'' + h ''symmetry_match'';
        T = h ''min_distance'' + h ''coordination_reasonable'';
        d = decideIteration summary pol i
    in ((IterationDecision.mode d = relax) = (R \<ge> T)) \<and>
       ((IterationDecision.mode d = tighten) = (R < T)) \<and>
       IterationDecision.action d =
         (if R \<ge> T
          then (if relax_order pol = [] then ''widen_lattice''
                else relax_order pol ! (i mod length (relax_order pol)))
          else (if tighten_order pol = [] then ''increase_min_distance_scale''
                else tighten_order pol ! (i mod length (tighten_order pol)))))"
  by (simp add: decideIteration_def Let_def)

text \<open>
  C8. For every constraints spec, decision and iteration number \<open>n\<close>,
  \<open>applyIterationDecision\<close> returns a spec whose adjustments are the input's adjustments
  (none when the field is absent) followed by the single entry \<open>{iteration: n, mode, action}\<close>:
  the earlier entries keep their positions and the length grows by one.
\<close>

theorem applyIterationDecision_appends:
  "(let old = (case ConstraintsSpec.adjustments cs of None \<Rightarrow> [] | Some a \<Rightarrow> a);
        new = ConstraintsSpec.adjustments (applyIterationDecision cs dec n)
    in new = Some (old @ [\<lparr>Adjustment.iteration = n,
                              mode = IterationDecision.mode dec,
                              action = IterationDecision.action dec\<rparr>]) \<and>
       length (the new) = length old + 1 \<and>
       take (length old) (the new) = old)"
  by (simp add: applyIterationDecision_def Let_def)


section \<open>Properties of the verification aggregator\<close>

lemma obj_set_fresh: "k \<notin> fst ` set kvs \<Longrightarrow> obj_set k v kvs = kvs @ [(k, v)]"
  by (induction kvs) auto

lemma loop_scores:
  "distinct (map fst ts @ map ValidationReport.candidate_id rs) \<Longrightarrow>
   ''__proto__'' \<notin> set (map ValidationReport.candidate_id rs) \<Longrightarrow>
   fst (summarize_loop rs (ts, h, b, bs)) =
     ts @ map (\<lambda>r. (ValidationReport.candidate_id r, ValidationReport.truth_score r)) rs"
proof (induction rs arbitrary: ts h b bs)
  case Nil
  then show ?case by simp
next
  case (Cons r rs)
  have fresh: "ValidationReport.candidate_id r \<notin> fst ` set ts"
    using Cons.prems by auto
  have d: "distinct (map fst (ts @ [(ValidationReport.candidate_id r, ValidationReport.truth_score r)]) @
             map ValidationReport.candidate_id rs)"
    using Cons.prems by auto
  have np: "ValidationReport.candidate_id r \<noteq> ''__proto__''"
    "''__proto__'' \<notin> set (map ValidationReport.candidate_id rs)"
    using Cons.prems(2) by auto
  show ?case
    using Cons.IH [OF d np(2)] np(1) by (simp add: obj_assign_def obj_set_fresh [OF fresh])
qed

lemma loop_best:
  "snd (snd (summarize_loop rs (ts, h, b, bs))) = (b, bs) \<and>
     (\<forall>r \<in> set rs. ValidationReport.truth_score r \<le> bs) \<or>
   (\<exists>ys r zs. rs = ys @ r # zs \<and>
      snd (snd (summarize_loop rs (ts, h, b, bs))) =
        (ValidationReport.candidate_id r, ValidationReport.truth_score r) \<and>
      bs < ValidationReport.truth_score r \<and>
      (\<forall>y \<in> set ys. ValidationReport.truth_score y < ValidationReport.truth_score r) \<and>
      (\<forall>z \<in> set zs. ValidationReport.truth_score z \<le> ValidationReport.truth_score r))"
proof (induction rs arbitrary: ts h b bs)
  case Nil
  then show ?case by simp
next
  case (Cons x xs)
  let ?ts = "obj_assign (ValidationReport.candidate_id x) (ValidationReport.truth_score x) ts"
  let ?h = "count_failures (checks x) h"
  show ?case
  proof (cases "ValidationReport.truth_score x > bs")
    case True
    have step: "summarize_loop (x # xs) (ts, h, b, bs) =
        summarize_loop xs (?ts, ?h, ValidationReport.candidate_id x, ValidationReport.truth_score x)"
      using True by simp
    from Cons.IH [of ?ts ?h "ValidationReport.candidate_id x" "ValidationReport.truth_score x"]
    show ?thesis
    proof (elim disjE conjE exE)
      assume a: "snd (snd (summarize_loop xs (?ts, ?h, ValidationReport.candidate_id x, ValidationReport.truth_score x))) =
          (ValidationReport.candidate_id x, ValidationReport.truth_score x)"
        and b: "\<forall>r\<in>set xs. ValidationReport.truth_score r \<le> ValidationReport.truth_score x"
      have "x # xs = [] @ x # xs" by simp
      with a b True step show ?thesis by (intro disjI2 exI [of _ "[]"] exI [of _ x] exI [of _ xs]) simp
    next
      fix ys r zs
      assume a: "xs = ys @ r # zs"
        and b: "snd (snd (summarize_loop xs (?ts, ?h, ValidationReport.candidate_id x, ValidationReport.truth_score x))) =
          (ValidationReport.candidate_id r, ValidationReport.truth_score r)"
        and c: "ValidationReport.truth_score x < ValidationReport.truth_score r"
        and d: "\<forall>y\<in>set ys. ValidationReport.truth_score y < ValidationReport.truth_score r"
        and e: "\<forall>z\<in>set zs. ValidationReport.truth_score z \<le> ValidationReport.truth_score r"
      have "x # xs = (x # ys) @ r # zs" using a by simp
      moreover have "bs < ValidationReport.truth_score r" using True c by simp
      ultimately show ?thesis using b c d e step
        by (intro disjI2 exI [of _ "x # ys"] exI [of _ r] exI [of _ zs]) simp
    qed
  next
    case False
    have step: "summarize_loop (x # xs) (ts, h, b, bs) = summarize_loop xs (?ts, ?h, b, bs)"
      using False by simp
    from Cons.IH [of ?ts ?h b bs]
    show ?thesis
    proof (elim disjE conjE exE)
      assume a: "snd (snd (summarize_loop xs (?ts, ?h, b, bs))) = (b, bs)"
        and b: "\<forall>r\<in>set xs. ValidationReport.truth_score r \<le> bs"
      show ?thesis using a b False step by (intro disjI1) auto
    next
      fix ys r zs
      assume a: "xs = ys @ r # zs"
        and b: "snd (snd (summarize_loop xs (?ts, ?h, b, bs))) =
          (ValidationReport.candidate_id r, ValidationReport.truth_score r)"
        and c: "bs < ValidationReport.truth_score r"
        and d: "\<forall>y\<in>set ys. ValidationReport.truth_score y < ValidationReport.truth_score r"
        and e: "\<forall>z\<in>set zs. ValidationReport.truth_score z \<le> ValidationReport.truth_score r"
      have "x # xs = (x # ys) @ r # zs" using a by simp
      moreover have "ValidationReport.truth_score x < ValidationReport.truth_score r" using False c by simp
      ultimately show ?thesis using b c d e step
        by (intro disjI2 exI [of _ "x # ys"] exI [of _ r] exI [of _ zs]) simp
    qed
  qed
qed

lemma hd_sort_key_first_min:
  fixes f :: "'a \<Rightarrow> 'k::linorder"
  assumes "\<forall>y \<in> set ys. f r < f y" and "\<forall>z \<in> set zs. f r \<le> f z"
  shows "hd (sort_key f (ys @ r # zs)) = r"
proof -
  let ?xs = "ys @ r # zs"
  let ?s = "sort_key f ?xs"
  have ne: "?s \<noteq> []" by (metis length_sort list.size(3) length_0_conv append_is_Nil_conv list.distinct(1))
  then obtain a t where s: "?s = a # t" by (cases ?s) auto
  have "a \<in> set ?xs" by (metis s list.set_intros(1) set_sort)
  then have ge: "f r \<le> f a" using assms by auto
  have "r \<in> set ?s" by simp
  moreover have "sorted (map f ?s)" by (rule sorted_sort_key)
  ultimately have "f a \<le> f r" using s by auto
  with ge have eq: "f a = f r" by simp
  have "filter (\<lambda>y. f y = f r) ?s = filter (\<lambda>y. f y = f r) ?xs"
    by (rule sort_key_stable)
  also have "\<dots> = r # filter (\<lambda>y. f y = f r) zs"
    using assms(1) by (auto simp: filter_empty_conv)
  finally have "hd (filter (\<lambda>y. f y = f r) ?s) = r" by simp
  then show ?thesis using s eq by simp
qed

lemma insort_key_map:
  "insort_key f (g x) (map g ys) = map g (insort_key (\<lambda>y. f (g y)) x ys)"
  by (induction ys) auto

lemma sort_key_map: "sort_key f (map g xs) = map g (sort_key (\<lambda>y. f (g y)) xs)"
  by (induction xs) (auto simp: sort_key_simps insort_key_map)

lemma sorted_by_key_then:
  fixes f :: "'a \<Rightarrow> 'k::linorder"
  assumes "sorted (map f ys)" and "\<And>k. sorted_wrt Q (filter (\<lambda>y. f y = k) ys)"
  shows "sorted_wrt (\<lambda>a b. f a < f b \<or> (f a = f b \<and> Q a b)) ys"
  using assms
proof (induction ys)
  case Nil
  then show ?case by simp
next
  case (Cons y ys)
  have tail: "sorted_wrt (\<lambda>a b. f a < f b \<or> (f a = f b \<and> Q a b)) ys"
  proof (rule Cons.IH)
    show "sorted (map f ys)" using Cons.prems(1) by simp
    fix k
    show "sorted_wrt Q (filter (\<lambda>y. f y = k) ys)"
      using Cons.prems(2) [of k] by (simp split: if_splits)
  qed
  have "f y < f b \<or> (f y = f b \<and> Q y b)" if b: "b \<in> set ys" for b
  proof (cases "f y = f b")
    case True
    have "sorted_wrt Q (y # filter (\<lambda>z. f z = f y) ys)"
      using Cons.prems(2) [of "f y"] by simp
    then show ?thesis using b True by auto
  next
    case False
    moreover have "f y \<le> f b" using Cons.prems(1) b by auto
    ultimately show ?thesis by simp
  qed
  with tail show ?case by simp
qed


lemma Object_entries_no_index:
  "\<forall>kv \<in> set obj. \<not> is_array_index (fst kv) \<Longrightarrow> Object_entries obj = obj"
proof -
  assume a: "\<forall>kv \<in> set obj. \<not> is_array_index (fst kv)"
  have "filter (\<lambda>kv. is_array_index (fst kv)) obj = []"
    using a by (simp add: filter_empty_conv)
  moreover have "filter (\<lambda>kv. \<not> is_array_index (fst kv)) obj = obj"
    using a by (simp add: filter_id_conv)
  ultimately show ?thesis by (simp add: Object_entries_def)
qed

lemma summarizeValidation_top:
  "top_candidates (summarizeValidation reports thr) =
     map (\<lambda>kv. \<lparr>TopCandidate.candidate_id = fst kv, truth_score = snd kv\<rparr>)
       (sort_by_score_desc
         (Object_entries (fst (summarize_loop reports ([], empty_histogram, [], - 1)))))"
  by (cases "summarize_loop reports ([], empty_histogram, [], - 1)")
     (simp add: summarizeValidation_def Let_def)

lemma summarizeValidation_best:
  "best_candidate_id (summarizeValidation reports thr) =
     (if fst (snd (snd (summarize_loop reports ([], empty_histogram, [], - 1)))) \<noteq> []
      then fst (snd (snd (summarize_loop reports ([], empty_histogram, [], - 1))))
      else (case reports of [] \<Rightarrow> [] | r # _ \<Rightarrow> ValidationReport.candidate_id r))"
  by (cases "summarize_loop reports ([], empty_histogram, [], - 1)")
     (simp add: summarizeValidation_def Let_def)

text \<open>
  C3 (as amended). For every non-empty list of reports with pairwise distinct, non-empty
  candidate ids, none of them an array index or \<open>__proto__\<close>, and truth scores above
  \<open>-1\<close>:
  \<open>top_candidates\<close> is the stable sort of the reports by descending truth score (ties keep
  the order of the input), \<open>best_candidate_id\<close> is the id of its first entry and has a
  maximal truth score; and when the reports arrive in ascending order of candidate id, ties
  are broken by candidate id ascending and \<open>best_candidate_id\<close> is the smallest id among
  those of maximal truth score.
\<close>

theorem summarizeValidation_order:
  assumes ne: "reports \<noteq> []"
    and dist: "distinct (map ValidationReport.candidate_id reports)"
    and ok: "\<forall>r \<in> set reports. ValidationReport.candidate_id r \<noteq> [] \<and>
                ValidationReport.candidate_id r \<noteq> ''__proto__'' \<and>
                \<not> is_array_index (ValidationReport.candidate_id r) \<and>
                - 1 < ValidationReport.truth_score r"
  shows "(let s = summarizeValidation reports thr in
     top_candidates s = map top_of (sort_key (\<lambda>r. - ValidationReport.truth_score r) reports) \<and>
     sorted_wrt (\<lambda>a b. TopCandidate.truth_score a \<ge> TopCandidate.truth_score b) (top_candidates s) \<and>
     best_candidate_id s = TopCandidate.candidate_id (hd (top_candidates s)) \<and>
     (\<exists>r \<in> set reports. ValidationReport.candidate_id r = best_candidate_id s \<and>
        (\<forall>r' \<in> set reports. ValidationReport.truth_score r' \<le> ValidationReport.truth_score r)) \<and>
     (sorted_wrt (<) (map ValidationReport.candidate_id reports) \<longrightarrow>
        sorted_wrt spec_order (top_candidates s) \<and>
        (\<forall>r \<in> set reports.
           (\<forall>r' \<in> set reports. ValidationReport.truth_score r' \<le> ValidationReport.truth_score r) \<longrightarrow>
           best_candidate_id s \<le> ValidationReport.candidate_id r)))"
proof -
  let ?cid = ValidationReport.candidate_id
  let ?sc = ValidationReport.truth_score
  let ?f = "\<lambda>r. - ?sc r"
  let ?g = "\<lambda>r. (?cid r, ?sc r)"
  let ?st = "summarize_loop reports ([], empty_histogram, [], - 1)"
  let ?s = "summarizeValidation reports thr"
  let ?sorted = "sort_key ?f reports"
  have np: "''__proto__'' \<notin> set (map ?cid reports)"
    using ok by auto
  have scores: "fst ?st = map ?g reports"
    using loop_scores [of "[]" reports empty_histogram "[]" "- 1"] dist np by simp
  have entries: "Object_entries (map ?g reports) = map ?g reports"
    by (rule Object_entries_no_index) (use ok in auto)
  have top: "top_candidates ?s = map top_of ?sorted"
    using scores entries
    by (simp add: summarizeValidation_top sort_by_score_desc_def sort_key_map top_of_def)
  have "\<not> (\<forall>r \<in> set reports. ?sc r \<le> - 1)"
    using ne ok by (cases reports) (auto simp: not_le)
  with loop_best [of reports "[]" empty_histogram "[]" "- 1"]
  obtain ys r zs where split: "reports = ys @ r # zs"
    and best: "snd (snd ?st) = (?cid r, ?sc r)"
    and lower: "\<forall>y \<in> set ys. ?sc y < ?sc r"
    and upper: "\<forall>z \<in> set zs. ?sc z \<le> ?sc r"
    by blast
  have r_in: "r \<in> set reports" using split by simp
  then have "?cid r \<noteq> []" using ok by blast
  then have bid: "best_candidate_id ?s = ?cid r"
    using best by (simp add: summarizeValidation_best)
  have hd_sorted: "hd ?sorted = r"
    unfolding split by (rule hd_sort_key_first_min) (use lower upper in auto)
  have sorted_ne: "?sorted \<noteq> []"
    using ne by (metis length_sort length_0_conv)
  have hd_top: "best_candidate_id ?s = TopCandidate.candidate_id (hd (top_candidates ?s))"
    using bid hd_sorted sorted_ne by (simp add: top hd_map top_of_def)
  have r_max: "\<forall>r' \<in> set reports. ?sc r' \<le> ?sc r"
    using split lower upper by auto
  have desc: "sorted_wrt (\<lambda>a b. TopCandidate.truth_score a \<ge> TopCandidate.truth_score b)
      (top_candidates ?s)"
    using sorted_sort_key [of ?f reports]
    by (simp add: top sorted_wrt_map sorted_map top_of_def)
  have asc: "sorted_wrt spec_order (top_candidates ?s) \<and>
      (\<forall>r' \<in> set reports. (\<forall>r'' \<in> set reports. ?sc r'' \<le> ?sc r') \<longrightarrow>
         best_candidate_id ?s \<le> ?cid r')"
    if ids: "sorted_wrt (<) (map ?cid reports)"
  proof
    have q: "sorted_wrt (\<lambda>a b. ?cid a < ?cid b) reports"
      using ids by (simp add: sorted_wrt_map)
    have "sorted_wrt (\<lambda>a b. ?f a < ?f b \<or> (?f a = ?f b \<and> ?cid a < ?cid b)) ?sorted"
    proof (rule sorted_by_key_then)
      show "sorted (map ?f ?sorted)" by (rule sorted_sort_key)
      fix k
      have "filter (\<lambda>y. ?f y = k) ?sorted = filter (\<lambda>y. ?f y = k) reports"
        by (rule sort_key_stable)
      then show "sorted_wrt (\<lambda>a b. ?cid a < ?cid b) (filter (\<lambda>y. ?f y = k) ?sorted)"
        using sorted_wrt_filter [OF q] by simp
    qed
    then show "sorted_wrt spec_order (top_candidates ?s)"
      by (simp add: top sorted_wrt_map spec_order_def top_of_def)
    have after: "\<forall>z \<in> set zs. ?cid r < ?cid z"
      using q unfolding split by (simp add: sorted_wrt_append)
    show "\<forall>r' \<in> set reports. (\<forall>r'' \<in> set reports. ?sc r'' \<le> ?sc r') \<longrightarrow>
         best_candidate_id ?s \<le> ?cid r'"
    proof (intro ballI impI)
      fix r'
      assume r': "r' \<in> set reports" and mx: "\<forall>r'' \<in> set reports. ?sc r'' \<le> ?sc r'"
      have "?sc r \<le> ?sc r'" using mx r_in by blast
      then have "r' \<notin> set ys" using lower by auto
      then have "r' = r \<or> r' \<in> set zs" using r' split by auto
      then show "best_candidate_id ?s \<le> ?cid r'" using after bid by auto
    qed
  qed
  have ex: "\<exists>r \<in> set reports. ?cid r = best_candidate_id ?s \<and>
      (\<forall>r' \<in> set reports. ?sc r' \<le> ?sc r)"
    using bid r_in r_max by auto
  show ?thesis
    unfolding Let_def
  proof (intro conjI impI)
    show "top_candidates ?s = map top_of ?sorted" by (rule top)
    show "sorted_wrt (\<lambda>a b. TopCandidate.truth_score a \<ge> TopCandidate.truth_score b)
      (top_candidates ?s)" by (rule desc)
    show "best_candidate_id ?s = TopCandidate.candidate_id (hd (top_candidates ?s))"
      by (rule hd_top)
    show "\<exists>r \<in> set reports. ?cid r = best_candidate_id ?s \<and>
      (\<forall>r' \<in> set reports. ?sc r' \<le> ?sc r)" by (rule ex)
  next
    assume ids: "sorted_wrt (<) (map ?cid reports)"
    show "sorted_wrt spec_order (top_candidates ?s)" using asc [OF ids] by simp
    show "\<forall>r \<in> set reports. (\<forall>r' \<in> set reports. ?sc r' \<le> ?sc r) \<longrightarrow>
         best_candidate_id ?s \<le> ?cid r" using asc [OF ids] by simp
  qed
qed

theorem summarizeValidation_order_witness:
  "(let reports = [report_of ''cand_0001'' (85 / 100), report_of ''cand_0002'' (85 / 100),
                   report_of ''cand_0003'' (6 / 10)];
        s = summarizeValidation reports (8 / 10)
    in sorted_wrt (<) (map ValidationReport.candidate_id reports) \<and>
       map TopCandidate.candidate_id (top_candidates s) = [''cand_0001'', ''cand_0002'', ''cand_0003''] \<and>
       sorted_wrt spec_order (top_candidates s) \<and>
       best_candidate_id s = TopCandidate.candidate_id (hd (top_candidates s)))"
proof -
  let ?rs = "[report_of ''cand_0001'' (85 / 100), report_of ''cand_0002'' (85 / 100),
              report_of ''cand_0003'' (6 / 10)]"
  have ne: "?rs \<noteq> []" by simp
  have dist: "distinct (map ValidationReport.candidate_id ?rs)"
    by (simp add: report_of_def)
  have ok: "\<forall>r \<in> set ?rs. ValidationReport.candidate_id r \<noteq> [] \<and>
                ValidationReport.candidate_id r \<noteq> ''__proto__'' \<and>
                \<not> is_array_index (ValidationReport.candidate_id r) \<and>
                - 1 < ValidationReport.truth_score r"
    by (simp add: report_of_def is_array_index_def is_digit_def)
  have asc: "sorted_wrt (<) (map ValidationReport.candidate_id ?rs)"
    by (simp add: report_of_def)
  note th = summarizeValidation_order [OF ne dist ok, of "8 / 10", unfolded Let_def]
  have top: "top_candidates (summarizeValidation ?rs (8 / 10)) =
      map top_of (sort_key (\<lambda>r. - ValidationReport.truth_score r) ?rs)"
    by (rule th [THEN conjunct1])
  have ids: "map TopCandidate.candidate_id (top_candidates (summarizeValidation ?rs (8 / 10))) =
      [''cand_0001'', ''cand_0002'', ''cand_0003'']"
    unfolding top by (simp add: report_of_def top_of_def)
  have best: "best_candidate_id (summarizeValidation ?rs (8 / 10)) =
      TopCandidate.candidate_id (hd (top_candidates (summarizeValidation ?rs (8 / 10))))"
    by (rule th [THEN conjunct2, THEN conjunct2, THEN conjunct1])
  have "sorted_wrt spec_order (top_candidates (summarizeValidation ?rs (8 / 10)))"
    using th [THEN conjunct2, THEN conjunct2, THEN conjunct2, THEN conjunct2] asc by blast
  with asc ids best show ?thesis
    unfolding Let_def by (intro conjI)
qed

text \<open>
  The claim as stated fails on two reports with equal scores listed as \<open>b\<close>, \<open>a\<close>:
  \<open>top_candidates\<close> keeps \<open>b\<close> before \<open>a\<close>, and \<open>best_candidate_id\<close> is \<open>b\<close>, not the
  lexicographically smallest id \<open>a\<close>.
\<close>

theorem summarizeValidation_tie_counterexample:
  "\<not> sorted_wrt spec_order
       (top_candidates (summarizeValidation [report_of ''b'' (1 / 2), report_of ''a'' (1 / 2)] (4 / 5))) \<and>
   best_candidate_id (summarizeValidation [report_of ''b'' (1 / 2), report_of ''a'' (1 / 2)] (4 / 5)) = ''b'' \<and>
   ''a'' < ''b''"
  by (simp add: summarizeValidation_def report_of_def Object_entries_def is_array_index_def
      is_digit_def sort_by_score_desc_def spec_order_def obj_assign_def)


section \<open>Properties of the workflows\<close>











text \<open>
  C6. When the manifest of the run says \<open>iteration + 1 > policy.max_iters\<close>,
  \<open>runCspIterate\<close> fails and returns the file system and the client state it was given:
  nothing is written and no tool is called. With the summary and the constraints present the
  error is the one that names the iteration count.
\<close>

theorem runCspIterate_max_iters:
  assumes m: "run_manifest_json (fsys (runDir (getRunPaths (IterateInput.workspace_dir inp) (IterateInput.run_id inp)))) = Some m"
    and over: "int (RunManifest.iteration m) + 1 > PolicyConfig.max_iters (policy (IterateInput.config inp))"
  shows "\<exists>e. runCspIterate pf client inp now1 (fsys, cst) = (Inl e, fsys, cst) \<and>
     (validation_summary_json (fsys (runDir (getRunPaths (IterateInput.workspace_dir inp) (IterateInput.run_id inp)))) \<noteq> None \<and>
      constraints_json (fsys (runDir (getRunPaths (IterateInput.workspace_dir inp) (IterateInput.run_id inp)))) \<noteq> None \<longrightarrow>
      e = Error (''Max iterations reached ('' @ nat_to_string (RunManifest.iteration m) @ ''/'' @
                 int_to_string (PolicyConfig.max_iters (policy (IterateInput.config inp))) @ '')''))"
proof -
  let ?d = "fsys (runDir (getRunPaths (IterateInput.workspace_dir inp) (IterateInput.run_id inp)))"
  let ?msg = "Error (''Max iterations reached ('' @ nat_to_string (RunManifest.iteration m) @ ''/'' @
                 int_to_string (PolicyConfig.max_iters (policy (IterateInput.config inp))) @ '')'')"
  show ?thesis
  proof (cases "validation_summary_json ?d")
    case None
    then have "runCspIterate pf client inp now1 (fsys, cst) =
        (Inl (Error ''ENOENT: no such file or directory''), fsys, cst)"
      using m by (simp add: runCspIterate_def Let_def readManifest_def readValidationSummary_def)
    with None show ?thesis by simp
  next
    case (Some summ)
    note s = Some
    show ?thesis
    proof (cases "constraints_json ?d")
      case None
      then have "runCspIterate pf client inp now1 (fsys, cst) =
          (Inl (Error ''ENOENT: no such file or directory''), fsys, cst)"
        using m s
        by (simp add: runCspIterate_def Let_def readManifest_def readValidationSummary_def
            readConstraints_def)
      with None show ?thesis by simp
    next
      case (Some c)
      then have "runCspIterate pf client inp now1 (fsys, cst) = (Inl ?msg, fsys, cst)"
        using m s over
        by (simp add: runCspIterate_def Let_def readManifest_def readValidationSummary_def
            readConstraints_def)
      then show ?thesis by simp
    qed
  qed
qed

theorem runCspIterate_max_iters_witness:
  "\<forall>pf client cst now1.
     runCspIterate pf client example_iterate_input now1
         (example_filesystem 5 (Some example_summary), cst) =
       (Inl (Error ''Max iterations reached (5/5)''), example_filesystem 5 (Some example_summary), cst)"
proof (intro allI)
  fix pf :: platform and client :: "'s ToolClient" and cst :: 's and now1 :: string
  let ?fs = "example_filesystem 5 (Some example_summary)"
  let ?d = "?fs (runDir (getRunPaths (IterateInput.workspace_dir example_iterate_input)
             (IterateInput.run_id example_iterate_input)))"
  have m: "run_manifest_json ?d = Some (example_manifest 5)"
    by (simp add: example_filesystem_def example_iterate_input_def example_paths_def)
  have present: "validation_summary_json ?d \<noteq> None \<and> constraints_json ?d \<noteq> None"
    by (simp add: example_filesystem_def example_iterate_input_def example_paths_def)
  have over: "int (RunManifest.iteration (example_manifest 5)) + 1 >
      PolicyConfig.max_iters (policy (IterateInput.config example_iterate_input))"
    by (simp add: example_manifest_def example_iterate_input_def DEFAULT_CONFIG_def)
  have msg: "''Max iterations reached ('' @ nat_to_string (RunManifest.iteration (example_manifest 5)) @
      ''/'' @ int_to_string (PolicyConfig.max_iters (policy (IterateInput.config example_iterate_input))) @
      '')'' = ''Max iterations reached (5/5)''"
    by (simp add: example_manifest_def example_iterate_input_def DEFAULT_CONFIG_def
        int_to_string_def digit_char_def)
  from runCspIterate_max_iters [of ?fs example_iterate_input
      "example_manifest 5" pf client now1 cst, OF m over] present
  obtain e where
    "runCspIterate pf client example_iterate_input now1 (?fs, cst) = (Inl e, ?fs, cst)"
    "e = Error (''Max iterations reached ('' @ nat_to_string (RunManifest.iteration (example_manifest 5)) @
      ''/'' @ int_to_string (PolicyConfig.max_iters (policy (IterateInput.config example_iterate_input))) @
      '')'')"
    by blast
  then show "runCspIterate pf client example_iterate_input now1 (?fs, cst) =
       (Inl (Error ''Max iterations reached (5/5)''), ?fs, cst)"
    unfolding msg by simp
qed


section \<open>The summary that the workflows persist\<close>

lemma call_as_Inr:
  "call_as proj client n i c = (Inr x, c') \<Longrightarrow> \<exists>out. client n i c = (Inr out, c') \<and> proj out = Some x"
  by (auto simp: call_as_def split: prod.splits sum.splits option.splits)

lemma as_validation_Some: "as_validation out = Some rs \<Longrightarrow> out = ValidationOutput (fst rs) (snd rs)"
  by (cases out) auto

lemma update_dir_same [simp]: "update_dir p f fsys (runDir p) = f (fsys (runDir p))"
  by (simp add: update_dir_def)

lemma summary_ensureManifest [simp]:
  "validation_summary_json (ensureManifest p m fsys (runDir p)) = validation_summary_json (fsys (runDir p))"
  by (simp add: ensureManifest_def appendEvent_def writeManifest_def)

lemma summary_writeValidationReports [simp]:
  "validation_summary_json (writeValidationReports p rs summ fsys (runDir p)) = Some summ"
  by (simp add: writeValidationReports_def)

lemma summary_writeIterationArtifact [simp]:
  "validation_summary_json (writeIterationArtifact p n a fsys (runDir p)) = validation_summary_json (fsys (runDir p))"
  by (simp add: writeIterationArtifact_def)

lemma discover_Inr:
  assumes "runCspDiscover pf client inp t1 t2 (fsys, cst) = (Inr res, fsys', cst')"
  shows "\<exists>input c0 reports supplied.
      client ''csp-validators-mcp.batch_validate'' input c0 = (Inr (ValidationOutput reports supplied), cst') \<and>
      validation_summary_json (fsys' (run_dir res)) =
        Some (summary_or_recompute reports supplied (truth_accept_threshold (policy (DiscoverInput.config inp)))) \<and>
      CspRunResult.summary_hash res =
        computeSummaryHash pf (summary_or_recompute reports supplied (truth_accept_threshold (policy (DiscoverInput.config inp))))"
  using assms unfolding runCspDiscover_def Let_def
  apply (auto split: prod.splits sum.splits if_splits dest!: call_as_Inr as_validation_Some)
   apply (intro exI conjI, assumption, rule refl, rule refl)
  apply (intro exI conjI, assumption, rule refl, rule refl)
  done

lemma iterate_Inr:
  assumes "runCspIterate pf client inp t1 (fsys, cst) = (Inr res, fsys', cst')"
  shows "\<exists>input c0 reports supplied.
      client ''csp-validators-mcp.batch_validate'' input c0 = (Inr (ValidationOutput reports supplied), cst') \<and>
      validation_summary_json (fsys' (run_dir res)) =
        Some (summary_or_recompute reports supplied (truth_accept_threshold (policy (IterateInput.config inp)))) \<and>
      CspRunResult.summary_hash res =
        computeSummaryHash pf (summary_or_recompute reports supplied (truth_accept_threshold (policy (IterateInput.config inp))))"
  using assms unfolding runCspIterate_def Let_def
  apply (auto split: prod.splits sum.splits if_splits dest!: call_as_Inr as_validation_Some)
  apply (intro exI conjI, assumption, rule refl, rule refl)
  done

lemma validate_Inr:
  assumes "runCspValidate pf client inp (fsys, cst) = (Inr res, fsys', cst')"
  shows "\<exists>input c0 reports supplied.
      client ''csp-validators-mcp.batch_validate'' input c0 = (Inr (ValidationOutput reports supplied), cst') \<and>
      fst res = summary_or_recompute reports supplied (truth_accept_threshold (policy (ValidateInput.config inp))) \<and>
      validation_summary_json
        (fsys' (runDir (getRunPaths (ValidateInput.workspace_dir inp) (ValidateInput.run_id inp)))) =
        Some (fst res) \<and>
      snd res = computeSummaryHash pf (fst res)"
  using assms unfolding runCspValidate_def Let_def
  apply (auto split: prod.splits sum.splits if_splits dest!: call_as_Inr as_validation_Some)
  apply (intro exI conjI, assumption, rule refl)
  done

lemma validate_example:
  "runCspValidate pf (validator_client supplied) example_validate_input
       (example_filesystem 0 (Some example_summary), ()) =
     (Inr (summary_or_recompute [report_of ''cand_0001'' (9 / 10)] supplied (8 / 10),
           computeSummaryHash pf (summary_or_recompute [report_of ''cand_0001'' (9 / 10)] supplied (8 / 10))),
      writeValidationReports example_paths [report_of ''cand_0001'' (9 / 10)]
        (summary_or_recompute [report_of ''cand_0001'' (9 / 10)] supplied (8 / 10))
        (example_filesystem 0 (Some example_summary)), ())"
  by (simp add: runCspValidate_def Let_def example_validate_input_def example_filesystem_def
      example_paths_def readConstraints_def listCandidateIds_def endsWith_def
      readCandidateContent_def obj_get_def call_as_def validator_client_def DEFAULT_CONFIG_def)

lemma discover_stub_succeeds:
  "\<exists>res. fst (runCspDiscover pf StubToolClient_call inp t1 t2 (fsys, stub)) = Inr res"
  unfolding runCspDiscover_def Let_def
  by (simp add: call_as_def StubToolClient_call_def split: prod.splits)

lemma iterate_stub_succeeds:
  assumes "run_manifest_json (fsys (runDir (getRunPaths (IterateInput.workspace_dir inp) (IterateInput.run_id inp)))) = Some m"
    and "validation_summary_json (fsys (runDir (getRunPaths (IterateInput.workspace_dir inp) (IterateInput.run_id inp)))) \<noteq> None"
    and "constraints_json (fsys (runDir (getRunPaths (IterateInput.workspace_dir inp) (IterateInput.run_id inp)))) \<noteq> None"
    and "int (RunManifest.iteration m) + 1 \<le> PolicyConfig.max_iters (policy (IterateInput.config inp))"
  shows "\<exists>res. fst (runCspIterate pf StubToolClient_call inp t1 (fsys, stub)) = Inr res"
  using assms unfolding runCspIterate_def Let_def
  by (auto simp add: call_as_def StubToolClient_call_def readManifest_def readValidationSummary_def
       readConstraints_def split: prod.splits)

text \<open>
  C1 (as amended). When \<open>runCspDiscover\<close>, \<open>runCspIterate\<close> or \<open>runCspValidate\<close> succeeds,
  the summary written to \<open>summary.json\<close> and hashed into \<open>summary_hash\<close> is the \<open>summary\<close>
  field of the \<open>batch_validate\<close> output when that field is present, and the summary
  recomputed by \<open>summarizeValidation\<close> from the reports and the acceptance threshold only
  when it is absent.
\<close>

theorem workflows_summary_source:
  "(runCspDiscover pf client dinp t1 t2 (fsys, cst) = (Inr dres, dfsys, dcst) \<longrightarrow>
      (\<exists>input c0 reports supplied.
         client ''csp-validators-mcp.batch_validate'' input c0 =
           (Inr (ValidationOutput reports supplied), dcst) \<and>
         validation_summary_json (dfsys (run_dir dres)) =
           Some (summary_or_recompute reports supplied
                  (truth_accept_threshold (policy (DiscoverInput.config dinp)))) \<and>
         CspRunResult.summary_hash dres =
           computeSummaryHash pf (summary_or_recompute reports supplied
                  (truth_accept_threshold (policy (DiscoverInput.config dinp)))))) \<and>
   (runCspIterate pf client iinp t1 (fsys, cst) = (Inr ires, ifsys, icst) \<longrightarrow>
      (\<exists>input c0 reports supplied.
         client ''csp-validators-mcp.batch_validate'' input c0 =
           (Inr (ValidationOutput reports supplied), icst) \<and>
         validation_summary_json (ifsys (run_dir ires)) =
           Some (summary_or_recompute reports supplied
                  (truth_accept_threshold (policy (IterateInput.config iinp)))) \<and>
         CspRunResult.summary_hash ires =
           computeSummaryHash pf (summary_or_recompute reports supplied
                  (truth_accept_threshold (policy (IterateInput.config iinp)))))) \<and>
   (runCspValidate pf client vinp (fsys, cst) = (Inr vres, vfsys, vcst) \<longrightarrow>
      (\<exists>input c0 reports supplied.
         client ''csp-validators-mcp.batch_validate'' input c0 =
           (Inr (ValidationOutput reports supplied), vcst) \<and>
         fst vres = summary_or_recompute reports supplied
                  (truth_accept_threshold (policy (ValidateInput.config vinp))) \<and>
         validation_summary_json
           (vfsys (runDir (getRunPaths (ValidateInput.workspace_dir vinp) (ValidateInput.run_id vinp)))) =
           Some (fst vres) \<and>
         snd vres = computeSummaryHash pf (fst vres)))"
  using discover_Inr [of pf client dinp t1 t2 fsys cst dres dfsys dcst]
    iterate_Inr [of pf client iinp t1 fsys cst ires ifsys icst]
    validate_Inr [of pf client vinp fsys cst vres vfsys vcst]
  by (intro conjI impI)

theorem workflows_summary_source_witness:
  "(\<forall>pf t1 t2. \<exists>res fsys' stub'.
      runCspDiscover pf StubToolClient_call (example_discover_input ''/work'') t1 t2
          (empty_filesystem, new_StubToolClient 7 (Some (8 / 10))) = (Inr res, fsys', stub') \<and>
      (\<exists>input c0 reports supplied.
         StubToolClient_call ''csp-validators-mcp.batch_validate'' input c0 =
           (Inr (ValidationOutput reports supplied), stub') \<and>
         validation_summary_json (fsys' (run_dir res)) =
           Some (summary_or_recompute reports supplied (8 / 10)) \<and>
         CspRunResult.summary_hash res =
           computeSummaryHash pf (summary_or_recompute reports supplied (8 / 10)))) \<and>
   (\<forall>pf t1. \<exists>res fsys' stub'.
      runCspIterate pf StubToolClient_call example_iterate_input t1
          (example_filesystem 0 (Some example_summary), new_StubToolClient 1 (Some (8 / 10))) =
        (Inr res, fsys', stub') \<and>
      (\<exists>input c0 reports supplied.
         StubToolClient_call ''csp-validators-mcp.batch_validate'' input c0 =
           (Inr (ValidationOutput reports supplied), stub') \<and>
         validation_summary_json (fsys' (run_dir res)) =
           Some (summary_or_recompute reports supplied (8 / 10)) \<and>
         CspRunResult.summary_hash res =
           computeSummaryHash pf (summary_or_recompute reports supplied (8 / 10)))) \<and>
   (\<forall>pf. \<exists>res fsys'.
      runCspValidate pf (validator_client None) example_validate_input
          (example_filesystem 0 (Some example_summary), ()) = (Inr res, fsys', ()) \<and>
      fst res = summarizeValidation [report_of ''cand_0001'' (9 / 10)] (8 / 10) \<and>
      validation_summary_json (fsys' (runDir example_paths)) = Some (fst res) \<and>
      snd res = computeSummaryHash pf (fst res))"
proof (intro conjI allI)
  fix pf :: platform and t1 t2 :: string
  let ?run = "runCspDiscover pf StubToolClient_call (example_discover_input ''/work'') t1 t2
          (empty_filesystem, new_StubToolClient 7 (Some (8 / 10)))"
  obtain res where "fst ?run = Inr res"
    using discover_stub_succeeds by blast
  then obtain fsys' stub' where r: "?run = (Inr res, fsys', stub')"
    by (cases ?run) auto
  from workflows_summary_source [where pf = pf and client = StubToolClient_call
      and dinp = "example_discover_input ''/work''" and ?t1.0 = t1 and ?t2.0 = t2
      and fsys = empty_filesystem and cst = "new_StubToolClient 7 (Some (8 / 10))"
      and dres = res and dfsys = fsys' and dcst = stub', THEN conjunct1] r
  have inner: "\<exists>input c0 reports supplied.
         StubToolClient_call ''csp-validators-mcp.batch_validate'' input c0 =
           (Inr (ValidationOutput reports supplied), stub') \<and>
         validation_summary_json (fsys' (run_dir res)) =
           Some (summary_or_recompute reports supplied (8 / 10)) \<and>
         CspRunResult.summary_hash res =
           computeSummaryHash pf (summary_or_recompute reports supplied (8 / 10))"
    by (simp add: example_discover_input_def DEFAULT_CONFIG_def)
  show "\<exists>res fsys' stub'. ?run = (Inr res, fsys', stub') \<and>
      (\<exists>input c0 reports supplied.
         StubToolClient_call ''csp-validators-mcp.batch_validate'' input c0 =
           (Inr (ValidationOutput reports supplied), stub') \<and>
         validation_summary_json (fsys' (run_dir res)) =
           Some (summary_or_recompute reports supplied (8 / 10)) \<and>
         CspRunResult.summary_hash res =
           computeSummaryHash pf (summary_or_recompute reports supplied (8 / 10)))"
    by (rule exI [of _ res], rule exI [of _ fsys'], rule exI [of _ stub'], rule conjI [OF r inner])
next
  fix pf :: platform and t1 :: string
  let ?fs = "example_filesystem 0 (Some example_summary)"
  let ?run = "runCspIterate pf StubToolClient_call example_iterate_input t1
          (?fs, new_StubToolClient 1 (Some (8 / 10)))"
  have "\<exists>res. fst ?run = Inr res"
    by (rule iterate_stub_succeeds [where m = "example_manifest 0"])
       (simp_all add: example_filesystem_def example_iterate_input_def example_paths_def
         example_manifest_def DEFAULT_CONFIG_def)
  then obtain res where "fst ?run = Inr res" by blast
  then obtain fsys' stub' where r: "?run = (Inr res, fsys', stub')"
    by (cases ?run) auto
  from workflows_summary_source [where pf = pf and client = StubToolClient_call
      and iinp = example_iterate_input and ?t1.0 = t1
      and fsys = ?fs and cst = "new_StubToolClient 1 (Some (8 / 10))"
      and ires = res and ifsys = fsys' and icst = stub', THEN conjunct2, THEN conjunct1] r
  have inner: "\<exists>input c0 reports supplied.
         StubToolClient_call ''csp-validators-mcp.batch_validate'' input c0 =
           (Inr (ValidationOutput reports supplied), stub') \<and>
         validation_summary_json (fsys' (run_dir res)) =
           Some (summary_or_recompute reports supplied (8 / 10)) \<and>
         CspRunResult.summary_hash res =
           computeSummaryHash pf (summary_or_recompute reports supplied (8 / 10))"
    by (simp add: example_iterate_input_def DEFAULT_CONFIG_def)
  show "\<exists>res fsys' stub'. ?run = (Inr res, fsys', stub') \<and>
      (\<exists>input c0 reports supplied.
         StubToolClient_call ''csp-validators-mcp.batch_validate'' input c0 =
           (Inr (ValidationOutput reports supplied), stub') \<and>
         validation_summary_json (fsys' (run_dir res)) =
           Some (summary_or_recompute reports supplied (8 / 10)) \<and>
         CspRunResult.summary_hash res =
           computeSummaryHash pf (summary_or_recompute reports supplied (8 / 10)))"
    by (rule exI [of _ res], rule exI [of _ fsys'], rule exI [of _ stub'], rule conjI [OF r inner])
next
  fix pf :: platform
  let ?fs = "example_filesystem 0 (Some example_summary)"
  let ?s = "summary_or_recompute [report_of ''cand_0001'' (9 / 10)] None (8 / 10)"
  let ?fs' = "writeValidationReports example_paths [report_of ''cand_0001'' (9 / 10)] ?s ?fs"
  have r: "runCspValidate pf (validator_client None) example_validate_input (?fs, ()) =
      (Inr (?s, computeSummaryHash pf ?s), ?fs', ())"
    by (rule validate_example)
  from workflows_summary_source [where pf = pf and client = "validator_client None"
      and vinp = example_validate_input and fsys = ?fs and cst = "()"
      and vres = "(?s, computeSummaryHash pf ?s)" and vfsys = ?fs' and vcst = "()",
      THEN conjunct2, THEN conjunct2] r
  obtain input c0 reports supplied where
    c: "validator_client None ''csp-validators-mcp.batch_validate'' input c0 =
           (Inr (ValidationOutput reports supplied), ())"
    and s: "?s = summary_or_recompute reports supplied
                  (truth_accept_threshold (policy (ValidateInput.config example_validate_input)))"
    and p: "validation_summary_json
           (?fs' (runDir (getRunPaths (ValidateInput.workspace_dir example_validate_input)
              (ValidateInput.run_id example_validate_input)))) = Some ?s"
    by auto
  from c have "reports = [report_of ''cand_0001'' (9 / 10)]" "supplied = None"
    by (simp_all add: validator_client_def)
  with s have s': "?s = summarizeValidation [report_of ''cand_0001'' (9 / 10)] (8 / 10)"
    by (simp add: summary_or_recompute_def example_validate_input_def DEFAULT_CONFIG_def)
  from p have p': "validation_summary_json (?fs' (runDir example_paths)) = Some ?s"
    by (simp add: example_validate_input_def example_paths_def)
  show "\<exists>res fsys'.
      runCspValidate pf (validator_client None) example_validate_input (?fs, ()) = (Inr res, fsys', ()) \<and>
      fst res = summarizeValidation [report_of ''cand_0001'' (9 / 10)] (8 / 10) \<and>
      validation_summary_json (fsys' (runDir example_paths)) = Some (fst res) \<and>
      snd res = computeSummaryHash pf (fst res)"
    using r s' p'
    by (intro exI [of _ "(?s, computeSummaryHash pf ?s)"] exI [of _ ?fs'] conjI) simp_all
qed

text \<open>
  The claim as stated fails on a validator that supplies a summary: the supplied summary,
  whose best candidate is \<open>cand_9999\<close>, is returned, hashed and written to \<open>summary.json\<close>,
  while the summary recomputed from the one report has best candidate \<open>cand_0001\<close>.
\<close>

theorem supplied_summary_counterexample:
  "\<forall>pf. \<exists>fsys'.
     runCspValidate pf (validator_client (Some supplied_summary)) example_validate_input
         (example_filesystem 0 (Some example_summary), ()) =
       (Inr (supplied_summary, computeSummaryHash pf supplied_summary), fsys', ()) \<and>
     validation_summary_json (fsys' (runDir example_paths)) = Some supplied_summary \<and>
     best_candidate_id supplied_summary = ''cand_9999'' \<and>
     best_candidate_id (summarizeValidation [report_of ''cand_0001'' (9 / 10)] (8 / 10)) = ''cand_0001''"
proof (intro allI)
  fix pf :: platform
  let ?fs = "example_filesystem 0 (Some example_summary)"
  let ?fs' = "writeValidationReports example_paths [report_of ''cand_0001'' (9 / 10)]
       supplied_summary ?fs"
  have r: "runCspValidate pf (validator_client (Some supplied_summary)) example_validate_input (?fs, ()) =
      (Inr (supplied_summary, computeSummaryHash pf supplied_summary), ?fs', ())"
    using validate_example [of pf "Some supplied_summary"]
    by (simp add: summary_or_recompute_def)
  have p: "validation_summary_json (?fs' (runDir example_paths)) = Some supplied_summary"
    by simp
  have b1: "best_candidate_id supplied_summary = ''cand_9999''"
    by (simp add: supplied_summary_def)
  have b2: "best_candidate_id (summarizeValidation [report_of ''cand_0001'' (9 / 10)] (8 / 10)) = ''cand_0001''"
    by (simp add: summarizeValidation_def report_of_def obj_assign_def)
  from r p b1 b2 show "\<exists>fsys'.
     runCspValidate pf (validator_client (Some supplied_summary)) example_validate_input (?fs, ()) =
       (Inr (supplied_summary, computeSummaryHash pf supplied_summary), fsys', ()) \<and>
     validation_summary_json (fsys' (runDir example_paths)) = Some supplied_summary \<and>
     best_candidate_id supplied_summary = ''cand_9999'' \<and>
     best_candidate_id (summarizeValidation [report_of ''cand_0001'' (9 / 10)] (8 / 10)) = ''cand_0001''"
    by (intro exI [of _ ?fs'] conjI)
qed


section \<open>Failure of a workflow\<close>








lemma manifest_appendEvent [simp]:
  "run_manifest_json (appendEvent p ev fsys (runDir p)) = run_manifest_json (fsys (runDir p))"
  by (simp add: appendEvent_def)

lemma manifest_ensureManifest [simp]:
  "run_manifest_json (ensureManifest p m fsys (runDir p)) = Some m"
  by (simp add: ensureManifest_def appendEvent_def writeManifest_def)

lemma manifest_writeConstraints [simp]:
  "run_manifest_json (writeConstraints p c fsys (runDir p)) = run_manifest_json (fsys (runDir p))"
  by (simp add: writeConstraints_def)

lemma manifest_writeCandidates [simp]:
  "run_manifest_json (writeCandidates p cs fsys (runDir p)) = run_manifest_json (fsys (runDir p))"
  by (simp add: writeCandidates_def)

lemma manifest_writeValidationReports [simp]:
  "run_manifest_json (writeValidationReports p rs summ fsys (runDir p)) = run_manifest_json (fsys (runDir p))"
  by (simp add: writeValidationReports_def)










section \<open>Determinism of discovery\<close>

lemma discover_result_indep:
  assumes "DiscoverInput.objective i1 = DiscoverInput.objective i2"
    and "DiscoverInput.seed i1 = DiscoverInput.seed i2"
    and "DiscoverInput.chem_system i1 = DiscoverInput.chem_system i2"
    and "qlip (DiscoverInput.config i1) = qlip (DiscoverInput.config i2)"
    and "truth_accept_threshold (policy (DiscoverInput.config i1)) =
         truth_accept_threshold (policy (DiscoverInput.config i2))"
  shows "map_sum id key_fields (fst (runCspDiscover pf client i1 t1 t2 (fs1, cst))) =
         map_sum id key_fields (fst (runCspDiscover pf client i2 t3 t4 (fs2, cst)))"
  using assms unfolding runCspDiscover_def Let_def key_fields_def
  by (simp split: prod.splits sum.splits)

text \<open>
  C2. Two discoveries with the stub client built from the seed and the acceptance threshold,
  on requests with the same objective, seed, chemical system, solver settings and policy,
  both succeed and return the same \<open>candidate_ids\<close>, \<open>summary_hash\<close> and
  \<open>chosen_candidate_id\<close> (and the same run id, chemistry, truth score and iteration),
  whatever the workspace directories, the contents of the file systems and the clock
  readings are.
\<close>

theorem discover_deterministic:
  assumes obj: "DiscoverInput.objective i1 = DiscoverInput.objective i2"
    and sd: "DiscoverInput.seed i1 = DiscoverInput.seed i2"
    and chem: "DiscoverInput.chem_system i1 = DiscoverInput.chem_system i2"
    and ql: "qlip (DiscoverInput.config i1) = qlip (DiscoverInput.config i2)"
    and pol: "policy (DiscoverInput.config i1) = policy (DiscoverInput.config i2)"
  shows "\<exists>r1 r2.
     fst (runCspDiscover pf StubToolClient_call i1 t1 t2
            (fs1, new_StubToolClient (DiscoverInput.seed i1)
                    (Some (truth_accept_threshold (policy (DiscoverInput.config i1)))))) = Inr r1 \<and>
     fst (runCspDiscover pf StubToolClient_call i2 t3 t4
            (fs2, new_StubToolClient (DiscoverInput.seed i2)
                    (Some (truth_accept_threshold (policy (DiscoverInput.config i2)))))) = Inr r2 \<and>
     candidate_ids r1 = candidate_ids r2 \<and>
     CspRunResult.summary_hash r1 = CspRunResult.summary_hash r2 \<and>
     CspRunResult.chosen_candidate_id r1 = CspRunResult.chosen_candidate_id r2 \<and>
     CspRunResult.run_id r1 = CspRunResult.run_id r2 \<and>
     selected_chemistry r1 = selected_chemistry r2 \<and>
     CspRunResult.truth_score r1 = CspRunResult.truth_score r2 \<and>
     CspRunResult.iteration r1 = CspRunResult.iteration r2"
proof -
  let ?stub = "new_StubToolClient (DiscoverInput.seed i1)
                 (Some (truth_accept_threshold (policy (DiscoverInput.config i1))))"
  let ?run1 = "runCspDiscover pf StubToolClient_call i1 t1 t2 (fs1, ?stub)"
  let ?run2 = "runCspDiscover pf StubToolClient_call i2 t3 t4 (fs2, ?stub)"
  obtain r1 where r1: "fst ?run1 = Inr r1"
    using discover_stub_succeeds by blast
  obtain r2 where r2: "fst ?run2 = Inr r2"
    using discover_stub_succeeds by blast
  have "map_sum id key_fields (fst ?run1) = map_sum id key_fields (fst ?run2)"
    by (rule discover_result_indep) (simp_all add: obj sd chem ql pol)
  then have k: "key_fields r1 = key_fields r2"
    by (simp add: r1 r2)
  have same: "new_StubToolClient (DiscoverInput.seed i2)
                 (Some (truth_accept_threshold (policy (DiscoverInput.config i2)))) = ?stub"
    by (simp add: sd pol)
  show ?thesis
    unfolding same
    using r1 r2 k by (intro exI [of _ r1] exI [of _ r2] conjI) (simp_all add: key_fields_def)
qed

theorem discover_deterministic_witness:
  "\<forall>pf t1 t2 t3 t4. \<exists>r1 r2.
     fst (runCspDiscover pf StubToolClient_call (example_discover_input ''/tmp/csp-det-a'') t1 t2
            (empty_filesystem, new_StubToolClient 7 (Some (8 / 10)))) = Inr r1 \<and>
     fst (runCspDiscover pf StubToolClient_call (example_discover_input ''/tmp/csp-det-b'') t3 t4
            (empty_filesystem, new_StubToolClient 7 (Some (8 / 10)))) = Inr r2 \<and>
     candidate_ids r1 = candidate_ids r2 \<and>
     CspRunResult.summary_hash r1 = CspRunResult.summary_hash r2 \<and>
     CspRunResult.chosen_candidate_id r1 = CspRunResult.chosen_candidate_id r2 \<and>
     CspRunResult.workspace_dir r1 = ''/tmp/csp-det-a'' \<and>
     CspRunResult.workspace_dir r2 = ''/tmp/csp-det-b''"
proof (intro allI)
  fix pf :: platform and t1 t2 t3 t4 :: string
  let ?a = "example_discover_input ''/tmp/csp-det-a''"
  let ?b = "example_discover_input ''/tmp/csp-det-b''"
  have h: "DiscoverInput.objective ?a = DiscoverInput.objective ?b"
    "DiscoverInput.seed ?a = DiscoverInput.seed ?b"
    "DiscoverInput.chem_system ?a = DiscoverInput.chem_system ?b"
    "qlip (DiscoverInput.config ?a) = qlip (DiscoverInput.config ?b)"
    "policy (DiscoverInput.config ?a) = policy (DiscoverInput.config ?b)"
    by (simp_all add: example_discover_input_def DEFAULT_CONFIG_def)
  have v: "DiscoverInput.seed ?a = 7" "DiscoverInput.seed ?b = 7"
    "truth_accept_threshold (policy (DiscoverInput.config ?a)) = 8 / 10"
    "truth_accept_threshold (policy (DiscoverInput.config ?b)) = 8 / 10"
    by (simp_all add: example_discover_input_def DEFAULT_CONFIG_def)
  from discover_deterministic [OF h, of pf t1 t2 empty_filesystem t3 t4 empty_filesystem]
  obtain r1 r2 where
    a: "fst (runCspDiscover pf StubToolClient_call ?a t1 t2
            (empty_filesystem, new_StubToolClient 7 (Some (8 / 10)))) = Inr r1"
    and b: "fst (runCspDiscover pf StubToolClient_call ?b t3 t4
            (empty_filesystem, new_StubToolClient 7 (Some (8 / 10)))) = Inr r2"
    and c: "candidate_ids r1 = candidate_ids r2"
      "CspRunResult.summary_hash r1 = CspRunResult.summary_hash r2"
      "CspRunResult.chosen_candidate_id r1 = CspRunResult.chosen_candidate_id r2"
    unfolding v by blast
  have wa: "CspRunResult.workspace_dir r1 = ''/tmp/csp-det-a''"
    using a unfolding runCspDiscover_def Let_def
    by (auto simp: example_discover_input_def split: prod.splits sum.splits if_splits)
  have wb: "CspRunResult.workspace_dir r2 = ''/tmp/csp-det-b''"
    using b unfolding runCspDiscover_def Let_def
    by (auto simp: example_discover_input_def split: prod.splits sum.splits if_splits)
  from a b c wa wb show "\<exists>r1 r2.
     fst (runCspDiscover pf StubToolClient_call ?a t1 t2
            (empty_filesystem, new_StubToolClient 7 (Some (8 / 10)))) = Inr r1 \<and>
     fst (runCspDiscover pf StubToolClient_call ?b t3 t4
            (empty_filesystem, new_StubToolClient 7 (Some (8 / 10)))) = Inr r2 \<and>
     candidate_ids r1 = candidate_ids r2 \<and>
     CspRunResult.summary_hash r1 = CspRunResult.summary_hash r2 \<and>
     CspRunResult.chosen_candidate_id r1 = CspRunResult.chosen_candidate_id r2 \<and>
     CspRunResult.workspace_dir r1 = ''/tmp/csp-det-a'' \<and>
     CspRunResult.workspace_dir r2 = ''/tmp/csp-det-b''"
    by (intro exI [of _ r1] exI [of _ r2] conjI)
qed


section \<open>Validation after discovery\<close>

lemma batchValidate_loop_ids:
  "map CandidateSpec.candidate_id cs = map CandidateSpec.candidate_id cs' \<Longrightarrow>
   batchValidate_loop cs i thr acc = batchValidate_loop cs' i thr acc"
proof (induction cs arbitrary: cs' i acc)
  case Nil
  then show ?case by simp
next
  case (Cons c cs)
  then obtain c' cs'' where cs': "cs' = c' # cs''" by (cases cs') auto
  with Cons.prems have h: "CandidateSpec.candidate_id c = CandidateSpec.candidate_id c'"
    and t: "map CandidateSpec.candidate_id cs = map CandidateSpec.candidate_id cs''"
    by auto
  obtain r reports ts fh b bs where acc: "acc = (r, reports, ts, fh, b, bs)"
    by (cases acc) auto
  show ?case
    unfolding cs' acc
    by (simp add: h Let_def Cons.IH [OF t] split: prod.splits)
qed

lemma batchValidate_ids:
  "map CandidateSpec.candidate_id cs = map CandidateSpec.candidate_id cs' \<Longrightarrow>
   batchValidate cs stub = batchValidate cs' stub"
  by (simp add: batchValidate_def batchValidate_loop_ids [of cs cs'])

lemma stub_candidate_id [simp]:
  "CandidateSpec.candidate_id (stub_candidate i x) = ''cand_'' @ padStart 4 (CHR ''0'') (nat_to_string i)"
  by (simp add: stub_candidate_def Let_def)

lemma runQlip_loop_ids:
  "map CandidateSpec.candidate_id (fst (runQlip_loop ns r)) =
     map (\<lambda>i. ''cand_'' @ padStart 4 (CHR ''0'') (nat_to_string i)) ns"
  by (induction ns arbitrary: r) (simp_all add: split_beta)

lemma runQlip_ids: "map CandidateSpec.candidate_id (fst (runQlip stub)) = stub_ids"
proof -
  have "map CandidateSpec.candidate_id (fst (runQlip stub)) =
      map (\<lambda>i. ''cand_'' @ padStart 4 (CHR ''0'') (nat_to_string i)) [1, 2, 3, 4, 5]"
    using runQlip_loop_ids [of "[1, 2, 3, 4, 5]" "rng stub"]
    by (simp add: runQlip_def split_beta)
  also have "\<dots> = stub_ids"
    by (simp add: stub_ids_def padStart_def digit_char_def numeral_3_eq_3)
  finally show ?thesis .
qed

lemma written_candidate_names:
  "distinct (map fst files @ map (\<lambda>c. CandidateSpec.candidate_id c @ ''.cif'') cs) \<Longrightarrow>
   map fst (foldl (\<lambda>files c. obj_set (CandidateSpec.candidate_id c @ ''.cif'') (content c) files) files cs) =
     map fst files @ map (\<lambda>c. CandidateSpec.candidate_id c @ ''.cif'') cs"
proof (induction cs arbitrary: files)
  case Nil
  then show ?case by simp
next
  case (Cons c cs)
  have fresh: "CandidateSpec.candidate_id c @ ''.cif'' \<notin> fst ` set files"
    using Cons.prems by auto
  have d: "distinct (map fst (files @ [(CandidateSpec.candidate_id c @ ''.cif'', content c)]) @
             map (\<lambda>c. CandidateSpec.candidate_id c @ ''.cif'') cs)"
    using Cons.prems by auto
  show ?case
    using Cons.IH [OF d] by (simp add: obj_set_fresh [OF fresh])
qed

lemma read_candidates_ok:
  assumes "\<forall>c \<in> set ids. obj_get (candidates_files (fsys (runDir paths))) (c @ ''.cif'') \<noteq> None"
  shows "\<exists>cs. read_candidates paths fsys ids = Inr cs \<and> map CandidateSpec.candidate_id cs = ids"
  using assms
proof (induction ids)
  case Nil
  then show ?case by simp
next
  case (Cons c ids)
  then obtain cs where ih: "read_candidates paths fsys ids = Inr cs"
    "map CandidateSpec.candidate_id cs = ids" by auto
  from Cons.prems obtain body where
    "obj_get (candidates_files (fsys (runDir paths))) (c @ ''.cif'') = Some body" by auto
  with ih show ?case by (simp add: readCandidateContent_def)
qed

lemma listCandidateIds_written:
  assumes "map fst (candidates_files (fsys (runDir paths))) = map (\<lambda>i. i @ ''.cif'') ids"
  shows "listCandidateIds paths fsys = sort ids"
proof -
  have "filter (\<lambda>n. endsWith n ''.cif'') (map (\<lambda>i. i @ ''.cif'') ids) = map (\<lambda>i. i @ ''.cif'') ids"
    by (simp add: filter_id_conv endsWith_def)
  moreover have "map (\<lambda>n. take (length n - 4) n) (map (\<lambda>i. i @ ''.cif'') ids) = ids"
    by (simp add: map_idI)
  ultimately show ?thesis
    by (simp add: listCandidateIds_def assms)
qed

lemma sort_stub_ids: "sort stub_ids = stub_ids"
  by (simp add: stub_ids_def)

lemma candidates_appendEvent [simp]:
  "candidates_files (appendEvent p ev fsys (runDir p)) = candidates_files (fsys (runDir p))"
  "constraints_json (appendEvent p ev fsys (runDir p)) = constraints_json (fsys (runDir p))"
  by (simp_all add: appendEvent_def)

lemma candidates_ensureManifest [simp]:
  "candidates_files (ensureManifest p m fsys (runDir p)) = candidates_files (fsys (runDir p))"
  "constraints_json (ensureManifest p m fsys (runDir p)) = constraints_json (fsys (runDir p))"
  by (simp_all add: ensureManifest_def appendEvent_def writeManifest_def)

lemma candidates_writeConstraints [simp]:
  "candidates_files (writeConstraints p c fsys (runDir p)) = candidates_files (fsys (runDir p))"
  "constraints_json (writeConstraints p c fsys (runDir p)) = Some c"
  by (simp_all add: writeConstraints_def)

lemma candidates_writeValidationReports [simp]:
  "candidates_files (writeValidationReports p rs summ fsys (runDir p)) = candidates_files (fsys (runDir p))"
  "constraints_json (writeValidationReports p rs summ fsys (runDir p)) = constraints_json (fsys (runDir p))"
  by (simp_all add: writeValidationReports_def)

lemma candidates_writeCandidates [simp]:
  "candidates_files (writeCandidates p cs fsys (runDir p)) =
     foldl (\<lambda>files c. obj_set (CandidateSpec.candidate_id c @ ''.cif'') (content c) files)
       (candidates_files (fsys (runDir p))) cs"
  "constraints_json (writeCandidates p cs fsys (runDir p)) = constraints_json (fsys (runDir p))"
  by (simp_all add: writeCandidates_def)

lemma candidates_ensureRunDirectories [simp]:
  "ensureRunDirectories p fsys = fsys"
  by (simp add: ensureRunDirectories_def)

lemma stub_calls [simp]:
  "call_as as_chemistries StubToolClient_call ''materials-data-mcp.suggest_chemistries'' i1 s =
     (Inr (fst (suggestChemistries s)), snd (suggestChemistries s))"
  "call_as as_priors StubToolClient_call ''materials-data-mcp.fetch_priors'' i2 s =
     (Inr (fst (fetchPriors s)), snd (fetchPriors s))"
  "call_as as_constraints StubToolClient_call ''qlip-mcp.build_constraints''
       (BuildConstraintsInput chem prs ovr) s =
     (Inr (buildConstraints chem prs ovr), s)"
  "call_as as_candidates StubToolClient_call ''qlip-mcp.run_qlip'' i4 s =
     (Inr (fst (runQlip s)), snd (runQlip s))"
  "call_as as_validation StubToolClient_call ''csp-validators-mcp.batch_validate''
       (BatchValidateInput cs con sd thr) s =
     (Inr (fst (fst (batchValidate cs s)), Some (snd (fst (batchValidate cs s)))),
      snd (batchValidate cs s))"
  by (simp_all add: call_as_def StubToolClient_call_def split_beta)

lemma provided_truthy:
  "((case v of Some c \<Rightarrow> c | None \<Rightarrow> []) \<noteq> []) = truthy v"
  by (simp add: truthy_def split: option.splits)

lemma discover_stub_trace:
  assumes "runCspDiscover pf StubToolClient_call inp t1 t2 (fs0, stub0) = (Inr dres, fs1, stub1)"
  shows "CspRunResult.run_id dres = createRunId (DiscoverInput.seed inp) (DiscoverInput.objective inp) \<and>
     run_dir dres = runDir (getRunPaths (DiscoverInput.workspace_dir inp)
                      (createRunId (DiscoverInput.seed inp) (DiscoverInput.objective inp))) \<and>
     candidate_ids dres = map CandidateSpec.candidate_id (fst (runQlip (stub_before_qlip inp stub0))) \<and>
     candidates_files (fs1 (run_dir dres)) =
       foldl (\<lambda>files c. obj_set (CandidateSpec.candidate_id c @ ''.cif'') (content c) files)
         (candidates_files (fs0 (run_dir dres))) (fst (runQlip (stub_before_qlip inp stub0))) \<and>
     constraints_json (fs1 (run_dir dres)) \<noteq> None \<and>
     validation_summary_json (fs1 (run_dir dres)) =
       Some (snd (fst (batchValidate (fst (runQlip (stub_before_qlip inp stub0)))
                         (snd (runQlip (stub_before_qlip inp stub0)))))) \<and>
     CspRunResult.summary_hash dres =
       computeSummaryHash pf (snd (fst (batchValidate (fst (runQlip (stub_before_qlip inp stub0)))
                         (snd (runQlip (stub_before_qlip inp stub0))))))"
proof (cases "truthy (DiscoverInput.chem_system inp)")
  case True
  with assms show ?thesis
    unfolding runCspDiscover_def Let_def stub_before_qlip_def
    by (simp add: provided_truthy summary_or_recompute_def) (auto simp: summary_or_recompute_def)
next
  case False
  with assms show ?thesis
    unfolding runCspDiscover_def Let_def stub_before_qlip_def
    by (simp add: provided_truthy summary_or_recompute_def) (auto simp: summary_or_recompute_def)
qed

lemma floor_rat_numeral: "\<lfloor>(numeral a :: rat) / numeral b\<rfloor> = numeral a div numeral b"
  using floor_divide_of_int_eq [where ?'a = rat, of "numeral a" "numeral b"] by simp

lemma states_seed_1:
  "next_state 0x1 = 0xa08568e6"
  "next_state 0xa08568e6 = 0xa9b9baf2"
  "next_state 0xa9b9baf2 = 0x2e3177f4"
  "next_state 0x2e3177f4 = 0xf1662443"
  "next_state 0xf1662443 = 0x40cc4c4d"
  "next_state 0x40cc4c4d = 0xeb996123"
  "next_state 0xeb996123 = 0xe9f97355"
  "next_state 0xe9f97355 = 0x4a343ab0"
  "next_state 0x4a343ab0 = 0x1d4dd289"
  "next_state 0x1d4dd289 = 0x7a9176be"
  "next_state 0x7a9176be = 0x67a9deca"
  "next_state 0x67a9deca = 0x32e40e0e"
  by (simp_all add: next_state_def mulberry_mix1_def mulberry_mix2_def)

lemma outputs_seed_1:
  "uint (next_output 0xa08568e6) = 2693262067"
  "uint (next_output 0xa9b9baf2) = 2847611924"
  "uint (next_output 0x2e3177f4) = 775016241"
  "uint (next_output 0xf1662443) = 4049986011"
  "uint (next_output 0x40cc4c4d) = 1087197052"
  "uint (next_output 0xeb996123) = 3952791366"
  "uint (next_output 0xe9f97355) = 3925529776"
  "uint (next_output 0x4a343ab0) = 1244992096"
  "uint (next_output 0x1d4dd289) = 491628478"
  "uint (next_output 0x7a9176be) = 2056297723"
  "uint (next_output 0x67a9deca) = 1739079789"
  "uint (next_output 0x32e40e0e) = 853853598"
  by (simp_all add: next_output_def)

lemma nextFloat_eq:
  "nextFloat lo hi s =
     (lo + (hi - lo) * (of_int (uint (next_output (next_state s))) / 4294967296), next_state s)"
  by (simp add: nextFloat_def rng_next_def Let_def)

lemma loop_step:
  "batchValidate_loop (c # rest) index thr (r, reports, ts, fh, b, bs) =
     batchValidate_loop rest (Suc index) thr
       (next_state r,
        reports @ [\<lparr>ValidationReport.candidate_id = CandidateSpec.candidate_id c,
                     truth_score = truth_at index r,
                     accept = (truth_at index r \<ge> thr),
                     checks = stub_checks (truth_at index r)\<rparr>],
        obj_assign (CandidateSpec.candidate_id c) (truth_at index r) ts,
        count_failures (stub_checks (truth_at index r)) fh,
        (if truth_at index r > bs then CandidateSpec.candidate_id c else b),
        (if truth_at index r > bs then truth_at index r else bs))"
  by (simp add: truth_at_def Let_def nextFloat_eq)

lemma truth_validate_seed_1:
  "truth_at 0 0x1 = 8551 / 10000"
  "truth_at (Suc 0) 0xa08568e6 = 7265 / 10000"
  "truth_at (Suc (Suc 0)) 0xa9b9baf2 = 5872 / 10000"
  "truth_at (Suc (Suc (Suc 0))) 0x2e3177f4 = 4977 / 10000"
  "truth_at (Suc (Suc (Suc (Suc 0)))) 0xf1662443 = 3401 / 10000"
  by (simp_all add: truth_at_def nextFloat_eq states_seed_1 outputs_seed_1 baseScores_def
      toFixed4_def clamp_def floor_rat_numeral)

lemma truth_discover_seed_1:
  "truth_at 0 0xe9f97355 = 8416 / 10000"
  "truth_at (Suc 0) 0x4a343ab0 = 7046 / 10000"
  "truth_at (Suc (Suc 0)) 0x1d4dd289 = 5992 / 10000"
  "truth_at (Suc (Suc (Suc 0))) 0x7a9176be = 4762 / 10000"
  "truth_at (Suc (Suc (Suc (Suc 0)))) 0x67a9deca = 3380 / 10000"
  by (simp_all add: truth_at_def nextFloat_eq states_seed_1 outputs_seed_1 baseScores_def
      toFixed4_def clamp_def floor_rat_numeral)

lemma summary_validate_seed_1:
  "stub_summary \<lparr>rng = 0x1, truthThreshold = 8 / 10\<rparr> =
     summary_with_scores [8551 / 10000, 7265 / 10000, 5872 / 10000, 4977 / 10000, 3401 / 10000]"
  by (simp add: stub_summary_def batchValidate_def stub_ids_def candidate_named_def loop_step
      truth_validate_seed_1 states_seed_1 stub_checks_def stub_check_def obj_assign_def
      empty_histogram_def obj_get_def sort_by_score_desc_def Object_entries_def
      is_array_index_def is_digit_def summary_with_scores_def or_zero_def
      del: batchValidate_loop.simps(2))

lemma summary_discover_seed_1:
  "stub_summary \<lparr>rng = 0xe9f97355, truthThreshold = 8 / 10\<rparr> =
     summary_with_scores [8416 / 10000, 7046 / 10000, 5992 / 10000, 4762 / 10000, 3380 / 10000]"
  by (simp add: stub_summary_def batchValidate_def stub_ids_def candidate_named_def loop_step
      truth_discover_seed_1 states_seed_1 stub_checks_def stub_check_def obj_assign_def
      empty_histogram_def obj_get_def sort_by_score_desc_def Object_entries_def
      is_array_index_def is_digit_def summary_with_scores_def or_zero_def
      del: batchValidate_loop.simps(2))

lemma decimal_strings:
  "decimal_string 0 = ''0''" "decimal_string 1 = ''1''" "decimal_string 2 = ''2''"
  "decimal_string 3 = ''3''" "decimal_string 4 = ''4''" "decimal_string 5 = ''5''"
  "decimal_string (8551 / 10000) = ''0.8551''" "decimal_string (7265 / 10000) = ''0.7265''"
  "decimal_string (5872 / 10000) = ''0.5872''" "decimal_string (4977 / 10000) = ''0.4977''"
  "decimal_string (3401 / 10000) = ''0.3401''"
  "decimal_string (8416 / 10000) = ''0.8416''" "decimal_string (7046 / 10000) = ''0.7046''"
  "decimal_string (5992 / 10000) = ''0.5992''" "decimal_string (4762 / 10000) = ''0.4762''"
  "decimal_string (3380 / 10000) = ''0.338''"
  by (simp_all add: decimal_string_def Let_def digit_char_def floor_rat_numeral)

lemmas decimal_strings_normal = decimal_strings [simplified]

lemma text_validate_seed_1:
  "stableStringify decimal_string
     (summary_json (summary_with_scores
        [8551 / 10000, 7265 / 10000, 5872 / 10000, 4977 / 10000, 3401 / 10000])) =
   ''{\"accepted\":1,\"best_candidate_id\":\"cand_0001\",\"failure_histogram\":{\"charge_neutrality_feasible\":2,\"coordination_reasonable\":3,\"density_in_range\":2,\"min_distance\":1,\"parseable\":0,\"symmetry_match\":3},\"rejected\":4,\"top_candidates\":[{\"candidate_id\":\"cand_0001\",\"truth_score\":0.8551},{\"candidate_id\":\"cand_0002\",\"truth_score\":0.7265},{\"candidate_id\":\"cand_0003\",\"truth_score\":0.5872},{\"candidate_id\":\"cand_0004\",\"truth_score\":0.4977},{\"candidate_id\":\"cand_0005\",\"truth_score\":0.3401}],\"total\":5,\"truth_scores\":{\"cand_0001\":0.8551,\"cand_0002\":0.7265,\"cand_0003\":0.5872,\"cand_0004\":0.4977,\"cand_0005\":0.3401}}''"
  by (simp add: summary_json_def summary_with_scores_def stub_ids_def number_object_json_def
      top_candidate_json_def Object_keys_def Object_entries_def is_array_index_def is_digit_def
      JSON_quote_def escape_char_def decimal_strings_normal)

lemma text_discover_seed_1:
  "stableStringify decimal_string
     (summary_json (summary_with_scores
        [8416 / 10000, 7046 / 10000, 5992 / 10000, 4762 / 10000, 3380 / 10000])) =
   ''{\"accepted\":1,\"best_candidate_id\":\"cand_0001\",\"failure_histogram\":{\"charge_neutrality_feasible\":2,\"coordination_reasonable\":3,\"density_in_range\":2,\"min_distance\":1,\"parseable\":0,\"symmetry_match\":3},\"rejected\":4,\"top_candidates\":[{\"candidate_id\":\"cand_0001\",\"truth_score\":0.8416},{\"candidate_id\":\"cand_0002\",\"truth_score\":0.7046},{\"candidate_id\":\"cand_0003\",\"truth_score\":0.5992},{\"candidate_id\":\"cand_0004\",\"truth_score\":0.4762},{\"candidate_id\":\"cand_0005\",\"truth_score\":0.338}],\"total\":5,\"truth_scores\":{\"cand_0001\":0.8416,\"cand_0002\":0.7046,\"cand_0003\":0.5992,\"cand_0004\":0.4762,\"cand_0005\":0.338}}''"
  by (simp add: summary_json_def summary_with_scores_def stub_ids_def number_object_json_def
      top_candidate_json_def Object_keys_def Object_entries_def is_array_index_def is_digit_def
      JSON_quote_def escape_char_def decimal_strings_normal)

lemma stub_ids_written:
  assumes "map CandidateSpec.candidate_id cs = stub_ids"
  shows "map fst (foldl (\<lambda>files c. obj_set (CandidateSpec.candidate_id c @ ''.cif'') (content c) files) [] cs) =
         map (\<lambda>i. i @ ''.cif'') stub_ids"
proof -
  have "map (\<lambda>i. i @ ''.cif'') (map CandidateSpec.candidate_id cs) =
      map (\<lambda>c. CandidateSpec.candidate_id c @ ''.cif'') cs"
    by (simp add: comp_def)
  then have m: "map (\<lambda>c. CandidateSpec.candidate_id c @ ''.cif'') cs = map (\<lambda>i. i @ ''.cif'') stub_ids"
    unfolding assms by simp
  have "distinct (map (\<lambda>i. i @ ''.cif'') stub_ids)"
    by (simp add: stub_ids_def)
  then have "distinct (map fst ([] :: (string \<times> string) list) @
                map (\<lambda>c. CandidateSpec.candidate_id c @ ''.cif'') cs)"
    by (simp add: m)
  from written_candidate_names [OF this] show ?thesis by (simp add: m)
qed

lemma validate_on_stub_files:
  assumes names: "map fst (candidates_files (fsys (runDir (getRunPaths
                     (ValidateInput.workspace_dir vinp) (ValidateInput.run_id vinp))))) =
                  map (\<lambda>i. i @ ''.cif'') stub_ids"
    and con: "constraints_json (fsys (runDir (getRunPaths
                     (ValidateInput.workspace_dir vinp) (ValidateInput.run_id vinp)))) \<noteq> None"
  shows "\<exists>fs2 stub2.
     runCspValidate pf StubToolClient_call vinp (fsys, stub) =
       (Inr (stub_summary stub, computeSummaryHash pf (stub_summary stub)), fs2, stub2) \<and>
     validation_summary_json (fs2 (runDir (getRunPaths
        (ValidateInput.workspace_dir vinp) (ValidateInput.run_id vinp)))) = Some (stub_summary stub)"
proof -
  let ?paths = "getRunPaths (ValidateInput.workspace_dir vinp) (ValidateInput.run_id vinp)"
  have listing: "listCandidateIds ?paths fsys = stub_ids"
    using listCandidateIds_written [where ids = stub_ids and paths = ?paths and fsys = fsys, OF names] by (simp add: sort_stub_ids)
  have "\<forall>c \<in> set stub_ids. obj_get (candidates_files (fsys (runDir ?paths))) (c @ ''.cif'') \<noteq> None"
  proof
    fix c assume "c \<in> set stub_ids"
    then have "c @ ''.cif'' \<in> set (map fst (candidates_files (fsys (runDir ?paths))))"
      unfolding names by simp
    then show "obj_get (candidates_files (fsys (runDir ?paths))) (c @ ''.cif'') \<noteq> None"
      by (simp add: obj_get_def map_of_eq_None_iff)
  qed
  from read_candidates_ok [where ids = stub_ids and paths = ?paths and fsys = fsys, OF this]
  obtain cs where
    cs: "read_candidates ?paths fsys stub_ids = Inr cs"
    and ids: "map CandidateSpec.candidate_id cs = stub_ids"
    by blast
  have "map CandidateSpec.candidate_id cs = map CandidateSpec.candidate_id (map candidate_named stub_ids)"
    by (simp add: ids comp_def candidate_named_def)
  then have bv: "batchValidate cs stub = batchValidate (map candidate_named stub_ids) stub"
    by (rule batchValidate_ids)
  from con obtain c where c: "constraints_json (fsys (runDir ?paths)) = Some c" by blast
  have r: "runCspValidate pf StubToolClient_call vinp (fsys, stub) =
       (Inr (stub_summary stub, computeSummaryHash pf (stub_summary stub)),
        writeValidationReports ?paths (fst (fst (batchValidate cs stub))) (stub_summary stub) fsys,
        snd (batchValidate cs stub))"
    unfolding runCspValidate_def Let_def
    by (simp add: readConstraints_def c listing cs summary_or_recompute_def stub_summary_def bv)
  have p: "validation_summary_json
       (writeValidationReports ?paths (fst (fst (batchValidate cs stub))) (stub_summary stub) fsys
          (runDir ?paths)) = Some (stub_summary stub)"
    by simp
  from r p show ?thesis
    by (intro exI conjI)
qed

lemma stub_draws:
  "snd (suggestChemistries s) = s\<lparr>rng := next_state (rng s)\<rparr>"
  "snd (fetchPriors s) = s\<lparr>rng := next_state (rng s)\<rparr>"
  "snd (runQlip s) =
     s\<lparr>rng := next_state (next_state (next_state (next_state (next_state (rng s)))))\<rparr>"
  by (simp_all add: suggestChemistries_def fetchPriors_def runQlip_def nextInt_def nextFloat_eq
      Let_def split_beta)

lemma discover_then_validate:
  assumes d: "runCspDiscover pf StubToolClient_call dinp t1 t2 (fs0, stub0) = (Inr dres, fs1, stub1)"
    and fresh: "candidates_files (fs0 (runDir (getRunPaths (DiscoverInput.workspace_dir dinp)
                  (createRunId (DiscoverInput.seed dinp) (DiscoverInput.objective dinp))))) = []"
    and rid: "ValidateInput.run_id vinp = CspRunResult.run_id dres"
    and ws: "ValidateInput.workspace_dir vinp = DiscoverInput.workspace_dir dinp"
  shows "CspRunResult.summary_hash dres =
       computeSummaryHash pf (stub_summary (stub_at_validation dinp stub0)) \<and>
     validation_summary_json (fs1 (run_dir dres)) = Some (stub_summary (stub_at_validation dinp stub0)) \<and>
     rng (stub_at_validation dinp stub0) =
       (next_state ^^ (if truthy (DiscoverInput.chem_system dinp) then 6 else 7)) (rng stub0) \<and>
     truthThreshold (stub_at_validation dinp stub0) = truthThreshold stub0 \<and>
     (\<exists>fs2 stub2.
        runCspValidate pf StubToolClient_call vinp (fs1, stub) =
          (Inr (stub_summary stub, computeSummaryHash pf (stub_summary stub)), fs2, stub2) \<and>
        validation_summary_json (fs2 (run_dir dres)) = Some (stub_summary stub))"
proof -
  let ?q = "stub_before_qlip dinp stub0"
  let ?cs = "fst (runQlip ?q)"
  note tr = discover_stub_trace [OF d]
  have dir: "run_dir dres = runDir (getRunPaths (ValidateInput.workspace_dir vinp) (ValidateInput.run_id vinp))"
    using tr rid ws by (elim conjE) simp
  have "map CandidateSpec.candidate_id ?cs = map CandidateSpec.candidate_id (map candidate_named stub_ids)"
    by (simp add: runQlip_ids comp_def candidate_named_def)
  then have bv: "batchValidate ?cs (snd (runQlip ?q)) =
      batchValidate (map candidate_named stub_ids) (snd (runQlip ?q))"
    by (rule batchValidate_ids)
  have s: "snd (fst (batchValidate ?cs (snd (runQlip ?q)))) = stub_summary (stub_at_validation dinp stub0)"
    by (simp add: bv stub_summary_def stub_at_validation_def)
  have h: "CspRunResult.summary_hash dres =
       computeSummaryHash pf (stub_summary (stub_at_validation dinp stub0))"
    using tr s by (elim conjE) simp
  have p: "validation_summary_json (fs1 (run_dir dres)) = Some (stub_summary (stub_at_validation dinp stub0))"
    using tr s by (elim conjE) simp
  have g: "rng (stub_at_validation dinp stub0) =
       (next_state ^^ (if truthy (DiscoverInput.chem_system dinp) then 6 else 7)) (rng stub0)"
    by (simp add: stub_at_validation_def stub_before_qlip_def stub_draws eval_nat_numeral)
  have t: "truthThreshold (stub_at_validation dinp stub0) = truthThreshold stub0"
    by (simp add: stub_at_validation_def stub_before_qlip_def stub_draws)
  have names: "map fst (candidates_files (fs1 (runDir (getRunPaths
                     (ValidateInput.workspace_dir vinp) (ValidateInput.run_id vinp))))) =
                  map (\<lambda>i. i @ ''.cif'') stub_ids"
    using tr fresh stub_ids_written [OF runQlip_ids [of ?q]] unfolding dir [symmetric]
    by (elim conjE) simp
  have con: "constraints_json (fs1 (runDir (getRunPaths
                     (ValidateInput.workspace_dir vinp) (ValidateInput.run_id vinp)))) \<noteq> None"
    using tr unfolding dir [symmetric] by (elim conjE) simp
  from validate_on_stub_files [where fsys = fs1 and vinp = vinp and pf = pf and stub = stub,
      OF names con]
  have v: "\<exists>fs2 stub2.
        runCspValidate pf StubToolClient_call vinp (fs1, stub) =
          (Inr (stub_summary stub, computeSummaryHash pf (stub_summary stub)), fs2, stub2) \<and>
        validation_summary_json (fs2 (run_dir dres)) = Some (stub_summary stub)"
    unfolding dir .
  from h p g t v show ?thesis by (intro conjI)
qed

lemma fresh_stub_seed_1: "new_StubToolClient 1 (Some (8 / 10)) = \<lparr>rng = 0x1, truthThreshold = 8 / 10\<rparr>"
  by (simp add: new_StubToolClient_def new_SeededRng_def normalizeSeed_def)

lemma advanced_stub_seed_1:
  "stub_at_validation dry_run_discover_input \<lparr>rng = 0x1, truthThreshold = 8 / 10\<rparr> =
     \<lparr>rng = 0xe9f97355, truthThreshold = 8 / 10\<rparr>"
  by (simp add: stub_at_validation_def stub_before_qlip_def stub_draws dry_run_discover_input_def
      truthy_def states_seed_1)

lemma hash_decimal_platform:
  "computeSummaryHash (decimal_platform H) summ = H (stableStringify decimal_string (summary_json summ))"
  by (simp add: computeSummaryHash_def decimal_platform_def)

text \<open>
  C4 (as amended). Let a discovery with the stub client succeed on a run directory without
  candidate files. Its summary and \<open>summary_hash\<close> are those of the stub's \<open>batch_validate\<close>
  in the state that the stub has reached by then: its generator has made six draws (seven
  when no chemical system was given) since the stub was built. A validation of that run with
  a stub in any state \<open>stub\<close>, in particular one freshly built from the same seed, succeeds
  and returns and persists the summary of \<open>batch_validate\<close> in the state \<open>stub\<close>, with the
  hash of that summary. The two hashes are thus the hashes of two summaries computed from
  different draws of the generator.
\<close>

theorem validate_after_discover:
  assumes d: "runCspDiscover pf StubToolClient_call dinp t1 t2 (fs0, stub0) = (Inr dres, fs1, stub1)"
    and fresh: "candidates_files (fs0 (runDir (getRunPaths (DiscoverInput.workspace_dir dinp)
                  (createRunId (DiscoverInput.seed dinp) (DiscoverInput.objective dinp))))) = []"
    and rid: "ValidateInput.run_id vinp = CspRunResult.run_id dres"
    and ws: "ValidateInput.workspace_dir vinp = DiscoverInput.workspace_dir dinp"
  shows "CspRunResult.summary_hash dres =
       computeSummaryHash pf (stub_summary (stub_at_validation dinp stub0)) \<and>
     validation_summary_json (fs1 (run_dir dres)) = Some (stub_summary (stub_at_validation dinp stub0)) \<and>
     rng (stub_at_validation dinp stub0) =
       (next_state ^^ (if truthy (DiscoverInput.chem_system dinp) then 6 else 7)) (rng stub0) \<and>
     truthThreshold (stub_at_validation dinp stub0) = truthThreshold stub0 \<and>
     (\<exists>fs2 stub2.
        runCspValidate pf StubToolClient_call vinp (fs1, stub) =
          (Inr (stub_summary stub, computeSummaryHash pf (stub_summary stub)), fs2, stub2) \<and>
        validation_summary_json (fs2 (run_dir dres)) = Some (stub_summary stub))"
  using discover_then_validate [OF d fresh rid ws] .

theorem validate_after_discover_witness:
  "\<forall>pf t1 t2. \<exists>dres fs1 stub1 fs2 stub2.
     runCspDiscover pf StubToolClient_call (example_discover_input ''/work'') t1 t2
         (empty_filesystem, new_StubToolClient 7 (Some (8 / 10))) = (Inr dres, fs1, stub1) \<and>
     runCspValidate pf StubToolClient_call (validate_input_after 7 dres)
         (fs1, new_StubToolClient 7 (Some (8 / 10))) =
       (Inr (stub_summary (new_StubToolClient 7 (Some (8 / 10))),
             computeSummaryHash pf (stub_summary (new_StubToolClient 7 (Some (8 / 10))))),
        fs2, stub2) \<and>
     CspRunResult.summary_hash dres =
       computeSummaryHash pf
         (stub_summary (stub_at_validation (example_discover_input ''/work'')
                          (new_StubToolClient 7 (Some (8 / 10))))) \<and>
     rng (stub_at_validation (example_discover_input ''/work'') (new_StubToolClient 7 (Some (8 / 10)))) =
       (next_state ^^ 7) (rng (new_StubToolClient 7 (Some (8 / 10))))"
proof (intro allI)
  fix pf :: platform and t1 t2 :: string
  let ?inp = "example_discover_input ''/work''"
  let ?stub = "new_StubToolClient 7 (Some (8 / 10))"
  let ?run = "runCspDiscover pf StubToolClient_call ?inp t1 t2 (empty_filesystem, ?stub)"
  obtain dres where "fst ?run = Inr dres"
    using discover_stub_succeeds by blast
  then obtain fs1 stub1 where d: "?run = (Inr dres, fs1, stub1)"
    by (cases ?run) auto
  have fresh: "candidates_files (empty_filesystem (runDir (getRunPaths (DiscoverInput.workspace_dir ?inp)
                  (createRunId (DiscoverInput.seed ?inp) (DiscoverInput.objective ?inp))))) = []"
    by (simp add: empty_filesystem_def empty_RunDir_def)
  have rid: "ValidateInput.run_id (validate_input_after 7 dres) = CspRunResult.run_id dres"
    by (simp add: validate_input_after_def)
  have ws: "ValidateInput.workspace_dir (validate_input_after 7 dres) = DiscoverInput.workspace_dir ?inp"
    by (simp add: validate_input_after_def example_discover_input_def)
  note th = validate_after_discover [OF d fresh rid ws, of ?stub]
  from th obtain fs2 stub2 where
    v: "runCspValidate pf StubToolClient_call (validate_input_after 7 dres) (fs1, ?stub) =
          (Inr (stub_summary ?stub, computeSummaryHash pf (stub_summary ?stub)), fs2, stub2)"
    by (elim conjE exE)
  from th have h: "CspRunResult.summary_hash dres =
       computeSummaryHash pf (stub_summary (stub_at_validation ?inp ?stub))"
    by (elim conjE)
  from th have g: "rng (stub_at_validation ?inp ?stub) = (next_state ^^ 7) (rng ?stub)"
    by (elim conjE) (simp add: example_discover_input_def truthy_def)
  from d v h g show "\<exists>dres fs1 stub1 fs2 stub2.
     ?run = (Inr dres, fs1, stub1) \<and>
     runCspValidate pf StubToolClient_call (validate_input_after 7 dres) (fs1, ?stub) =
       (Inr (stub_summary ?stub, computeSummaryHash pf (stub_summary ?stub)), fs2, stub2) \<and>
     CspRunResult.summary_hash dres =
       computeSummaryHash pf (stub_summary (stub_at_validation ?inp ?stub)) \<and>
     rng (stub_at_validation ?inp ?stub) = (next_state ^^ 7) (rng ?stub)"
    by (intro exI conjI)
qed

text \<open>
  The claim as stated fails for seed 1 and the objective \<open>Discover stable oxide\<close>: the
  summary of the discovery has truth scores 0.8416, 0.7046, 0.5992, 0.4762, 0.338, the summary
  that the validation writes has 0.8551, 0.7265, 0.5872, 0.4977, 0.3401, and the two hashes
  are the hash function applied to two different texts.
\<close>

theorem validate_hash_counterexample:
  "\<forall>H t1 t2. \<exists>dres fs1 stub1 vres fs2 stub2.
     runCspDiscover (decimal_platform H) StubToolClient_call dry_run_discover_input t1 t2
         (empty_filesystem, new_StubToolClient 1 (Some (8 / 10))) = (Inr dres, fs1, stub1) \<and>
     runCspValidate (decimal_platform H) StubToolClient_call (validate_input_after 1 dres)
         (fs1, new_StubToolClient 1 (Some (8 / 10))) = (Inr vres, fs2, stub2) \<and>
     validation_summary_json (fs1 (run_dir dres)) =
       Some (summary_with_scores [8416 / 10000, 7046 / 10000, 5992 / 10000, 4762 / 10000, 3380 / 10000]) \<and>
     validation_summary_json (fs2 (run_dir dres)) =
       Some (summary_with_scores [8551 / 10000, 7265 / 10000, 5872 / 10000, 4977 / 10000, 3401 / 10000]) \<and>
     CspRunResult.summary_hash dres =
       H ''{\"accepted\":1,\"best_candidate_id\":\"cand_0001\",\"failure_histogram\":{\"charge_neutrality_feasible\":2,\"coordination_reasonable\":3,\"density_in_range\":2,\"min_distance\":1,\"parseable\":0,\"symmetry_match\":3},\"rejected\":4,\"top_candidates\":[{\"candidate_id\":\"cand_0001\",\"truth_score\":0.8416},{\"candidate_id\":\"cand_0002\",\"truth_score\":0.7046},{\"candidate_id\":\"cand_0003\",\"truth_score\":0.5992},{\"candidate_id\":\"cand_0004\",\"truth_score\":0.4762},{\"candidate_id\":\"cand_0005\",\"truth_score\":0.338}],\"total\":5,\"truth_scores\":{\"cand_0001\":0.8416,\"cand_0002\":0.7046,\"cand_0003\":0.5992,\"cand_0004\":0.4762,\"cand_0005\":0.338}}'' \<and>
     snd vres =
       H ''{\"accepted\":1,\"best_candidate_id\":\"cand_0001\",\"failure_histogram\":{\"charge_neutrality_feasible\":2,\"coordination_reasonable\":3,\"density_in_range\":2,\"min_distance\":1,\"parseable\":0,\"symmetry_match\":3},\"rejected\":4,\"top_candidates\":[{\"candidate_id\":\"cand_0001\",\"truth_score\":0.8551},{\"candidate_id\":\"cand_0002\",\"truth_score\":0.7265},{\"candidate_id\":\"cand_0003\",\"truth_score\":0.5872},{\"candidate_id\":\"cand_0004\",\"truth_score\":0.4977},{\"candidate_id\":\"cand_0005\",\"truth_score\":0.3401}],\"total\":5,\"truth_scores\":{\"cand_0001\":0.8551,\"cand_0002\":0.7265,\"cand_0003\":0.5872,\"cand_0004\":0.4977,\"cand_0005\":0.3401}}'' \<and>
     ''{\"accepted\":1,\"best_candidate_id\":\"cand_0001\",\"failure_histogram\":{\"charge_neutrality_feasible\":2,\"coordination_reasonable\":3,\"density_in_range\":2,\"min_distance\":1,\"parseable\":0,\"symmetry_match\":3},\"rejected\":4,\"top_candidates\":[{\"candidate_id\":\"cand_0001\",\"truth_score\":0.8416},{\"candidate_id\":\"cand_0002\",\"truth_score\":0.7046},{\"candidate_id\":\"cand_0003\",\"truth_score\":0.5992},{\"candidate_id\":\"cand_0004\",\"truth_score\":0.4762},{\"candidate_id\":\"cand_0005\",\"truth_score\":0.338}],\"total\":5,\"truth_scores\":{\"cand_0001\":0.8416,\"cand_0002\":0.7046,\"cand_0003\":0.5992,\"cand_0004\":0.4762,\"cand_0005\":0.338}}'' \<noteq>
     ''{\"accepted\":1,\"best_candidate_id\":\"cand_0001\",\"failure_histogram\":{\"charge_neutrality_feasible\":2,\"coordination_reasonable\":3,\"density_in_range\":2,\"min_distance\":1,\"parseable\":0,\"symmetry_match\":3},\"rejected\":4,\"top_candidates\":[{\"candidate_id\":\"cand_0001\",\"truth_score\":0.8551},{\"candidate_id\":\"cand_0002\",\"truth_score\":0.7265},{\"candidate_id\":\"cand_0003\",\"truth_score\":0.5872},{\"candidate_id\":\"cand_0004\",\"truth_score\":0.4977},{\"candidate_id\":\"cand_0005\",\"truth_score\":0.3401}],\"total\":5,\"truth_scores\":{\"cand_0001\":0.8551,\"cand_0002\":0.7265,\"cand_0003\":0.5872,\"cand_0004\":0.4977,\"cand_0005\":0.3401}}''"
proof (intro allI)
  fix H :: "string \<Rightarrow> string" and t1 t2 :: string
  let ?pf = "decimal_platform H"
  let ?inp = dry_run_discover_input
  let ?stub = "new_StubToolClient 1 (Some (8 / 10))"
  let ?run = "runCspDiscover ?pf StubToolClient_call ?inp t1 t2 (empty_filesystem, ?stub)"
  let ?sd = "summary_with_scores [8416 / 10000, 7046 / 10000, 5992 / 10000, 4762 / 10000, 3380 / 10000]"
  let ?sv = "summary_with_scores [8551 / 10000, 7265 / 10000, 5872 / 10000, 4977 / 10000, 3401 / 10000]"
  obtain dres where "fst ?run = Inr dres"
    using discover_stub_succeeds by blast
  then obtain fs1 stub1 where d: "?run = (Inr dres, fs1, stub1)"
    by (cases ?run) auto
  have fresh: "candidates_files (empty_filesystem (runDir (getRunPaths (DiscoverInput.workspace_dir ?inp)
                  (createRunId (DiscoverInput.seed ?inp) (DiscoverInput.objective ?inp))))) = []"
    by (simp add: empty_filesystem_def empty_RunDir_def)
  have rid: "ValidateInput.run_id (validate_input_after 1 dres) = CspRunResult.run_id dres"
    by (simp add: validate_input_after_def)
  have ws: "ValidateInput.workspace_dir (validate_input_after 1 dres) = DiscoverInput.workspace_dir ?inp"
    by (simp add: validate_input_after_def dry_run_discover_input_def)
  note th = discover_then_validate [OF d fresh rid ws, of ?stub]
  have sd: "stub_summary (stub_at_validation ?inp ?stub) = ?sd"
    by (simp only: fresh_stub_seed_1 advanced_stub_seed_1 summary_discover_seed_1)
  have sv: "stub_summary ?stub = ?sv"
    by (simp only: fresh_stub_seed_1 summary_validate_seed_1)
  from th obtain fs2 stub2 where
    v: "runCspValidate ?pf StubToolClient_call (validate_input_after 1 dres) (fs1, ?stub) =
          (Inr (?sv, computeSummaryHash ?pf ?sv), fs2, stub2)"
    and p2: "validation_summary_json (fs2 (run_dir dres)) = Some ?sv"
    unfolding sv by (elim conjE exE)
  from th have h: "CspRunResult.summary_hash dres = computeSummaryHash ?pf ?sd"
    unfolding sd by (elim conjE)
  from th have p1: "validation_summary_json (fs1 (run_dir dres)) = Some ?sd"
    unfolding sd by (elim conjE)
  have hd: "CspRunResult.summary_hash dres =
       H ''{\"accepted\":1,\"best_candidate_id\":\"cand_0001\",\"failure_histogram\":{\"charge_neutrality_feasible\":2,\"coordination_reasonable\":3,\"density_in_range\":2,\"min_distance\":1,\"parseable\":0,\"symmetry_match\":3},\"rejected\":4,\"top_candidates\":[{\"candidate_id\":\"cand_0001\",\"truth_score\":0.8416},{\"candidate_id\":\"cand_0002\",\"truth_score\":0.7046},{\"candidate_id\":\"cand_0003\",\"truth_score\":0.5992},{\"candidate_id\":\"cand_0004\",\"truth_score\":0.4762},{\"candidate_id\":\"cand_0005\",\"truth_score\":0.338}],\"total\":5,\"truth_scores\":{\"cand_0001\":0.8416,\"cand_0002\":0.7046,\"cand_0003\":0.5992,\"cand_0004\":0.4762,\"cand_0005\":0.338}}''"
    unfolding h hash_decimal_platform text_discover_seed_1 ..
  have hv: "snd (?sv, computeSummaryHash ?pf ?sv) =
       H ''{\"accepted\":1,\"best_candidate_id\":\"cand_0001\",\"failure_histogram\":{\"charge_neutrality_feasible\":2,\"coordination_reasonable\":3,\"density_in_range\":2,\"min_distance\":1,\"parseable\":0,\"symmetry_match\":3},\"rejected\":4,\"top_candidates\":[{\"candidate_id\":\"cand_0001\",\"truth_score\":0.8551},{\"candidate_id\":\"cand_0002\",\"truth_score\":0.7265},{\"candidate_id\":\"cand_0003\",\"truth_score\":0.5872},{\"candidate_id\":\"cand_0004\",\"truth_score\":0.4977},{\"candidate_id\":\"cand_0005\",\"truth_score\":0.3401}],\"total\":5,\"truth_scores\":{\"cand_0001\":0.8551,\"cand_0002\":0.7265,\"cand_0003\":0.5872,\"cand_0004\":0.4977,\"cand_0005\":0.3401}}''"
    unfolding snd_conv hash_decimal_platform text_validate_seed_1 ..
  have ne: "''{\"accepted\":1,\"best_candidate_id\":\"cand_0001\",\"failure_histogram\":{\"charge_neutrality_feasible\":2,\"coordination_reasonable\":3,\"density_in_range\":2,\"min_distance\":1,\"parseable\":0,\"symmetry_match\":3},\"rejected\":4,\"top_candidates\":[{\"candidate_id\":\"cand_0001\",\"truth_score\":0.8416},{\"candidate_id\":\"cand_0002\",\"truth_score\":0.7046},{\"candidate_id\":\"cand_0003\",\"truth_score\":0.5992},{\"candidate_id\":\"cand_0004\",\"truth_score\":0.4762},{\"candidate_id\":\"cand_0005\",\"truth_score\":0.338}],\"total\":5,\"truth_scores\":{\"cand_0001\":0.8416,\"cand_0002\":0.7046,\"cand_0003\":0.5992,\"cand_0004\":0.4762,\"cand_0005\":0.338}}'' \<noteq>
     ''{\"accepted\":1,\"best_candidate_id\":\"cand_0001\",\"failure_histogram\":{\"charge_neutrality_feasible\":2,\"coordination_reasonable\":3,\"density_in_range\":2,\"min_distance\":1,\"parseable\":0,\"symmetry_match\":3},\"rejected\":4,\"top_candidates\":[{\"candidate_id\":\"cand_0001\",\"truth_score\":0.8551},{\"candidate_id\":\"cand_0002\",\"truth_score\":0.7265},{\"candidate_id\":\"cand_0003\",\"truth_score\":0.5872},{\"candidate_id\":\"cand_0004\",\"truth_score\":0.4977},{\"candidate_id\":\"cand_0005\",\"truth_score\":0.3401}],\"total\":5,\"truth_scores\":{\"cand_0001\":0.8551,\"cand_0002\":0.7265,\"cand_0003\":0.5872,\"cand_0004\":0.4977,\"cand_0005\":0.3401}}''"
    by simp
  from d v p1 p2 hd hv ne show "\<exists>dres fs1 stub1 vres fs2 stub2.
     ?run = (Inr dres, fs1, stub1) \<and>
     runCspValidate ?pf StubToolClient_call (validate_input_after 1 dres) (fs1, ?stub) =
       (Inr vres, fs2, stub2) \<and>
     validation_summary_json (fs1 (run_dir dres)) = Some ?sd \<and>
     validation_summary_json (fs2 (run_dir dres)) = Some ?sv \<and>
     CspRunResult.summary_hash dres =
       H ''{\"accepted\":1,\"best_candidate_id\":\"cand_0001\",\"failure_histogram\":{\"charge_neutrality_feasible\":2,\"coordination_reasonable\":3,\"density_in_range\":2,\"min_distance\":1,\"parseable\":0,\"symmetry_match\":3},\"rejected\":4,\"top_candidates\":[{\"candidate_id\":\"cand_0001\",\"truth_score\":0.8416},{\"candidate_id\":\"cand_0002\",\"truth_score\":0.7046},{\"candidate_id\":\"cand_0003\",\"truth_score\":0.5992},{\"candidate_id\":\"cand_0004\",\"truth_score\":0.4762},{\"candidate_id\":\"cand_0005\",\"truth_score\":0.338}],\"total\":5,\"truth_scores\":{\"cand_0001\":0.8416,\"cand_0002\":0.7046,\"cand_0003\":0.5992,\"cand_0004\":0.4762,\"cand_0005\":0.338}}'' \<and>
     snd vres =
       H ''{\"accepted\":1,\"best_candidate_id\":\"cand_0001\",\"failure_histogram\":{\"charge_neutrality_feasible\":2,\"coordination_reasonable\":3,\"density_in_range\":2,\"min_distance\":1,\"parseable\":0,\"symmetry_match\":3},\"rejected\":4,\"top_candidates\":[{\"candidate_id\":\"cand_0001\",\"truth_score\":0.8551},{\"candidate_id\":\"cand_0002\",\"truth_score\":0.7265},{\"candidate_id\":\"cand_0003\",\"truth_score\":0.5872},{\"candidate_id\":\"cand_0004\",\"truth_score\":0.4977},{\"candidate_id\":\"cand_0005\",\"truth_score\":0.3401}],\"total\":5,\"truth_scores\":{\"cand_0001\":0.8551,\"cand_0002\":0.7265,\"cand_0003\":0.5872,\"cand_0004\":0.4977,\"cand_0005\":0.3401}}'' \<and>
     ''{\"accepted\":1,\"best_candidate_id\":\"cand_0001\",\"failure_histogram\":{\"charge_neutrality_feasible\":2,\"coordination_reasonable\":3,\"density_in_range\":2,\"min_distance\":1,\"parseable\":0,\"symmetry_match\":3},\"rejected\":4,\"top_candidates\":[{\"candidate_id\":\"cand_0001\",\"truth_score\":0.8416},{\"candidate_id\":\"cand_0002\",\"truth_score\":0.7046},{\"candidate_id\":\"cand_0003\",\"truth_score\":0.5992},{\"candidate_id\":\"cand_0004\",\"truth_score\":0.4762},{\"candidate_id\":\"cand_0005\",\"truth_score\":0.338}],\"total\":5,\"truth_scores\":{\"cand_0001\":0.8416,\"cand_0002\":0.7046,\"cand_0003\":0.5992,\"cand_0004\":0.4762,\"cand_0005\":0.338}}'' \<noteq>
     ''{\"accepted\":1,\"best_candidate_id\":\"cand_0001\",\"failure_histogram\":{\"charge_neutrality_feasible\":2,\"coordination_reasonable\":3,\"density_in_range\":2,\"min_distance\":1,\"parseable\":0,\"symmetry_match\":3},\"rejected\":4,\"top_candidates\":[{\"candidate_id\":\"cand_0001\",\"truth_score\":0.8551},{\"candidate_id\":\"cand_0002\",\"truth_score\":0.7265},{\"candidate_id\":\"cand_0003\",\"truth_score\":0.5872},{\"candidate_id\":\"cand_0004\",\"truth_score\":0.4977},{\"candidate_id\":\"cand_0005\",\"truth_score\":0.3401}],\"total\":5,\"truth_scores\":{\"cand_0001\":0.8551,\"cand_0002\":0.7265,\"cand_0003\":0.5872,\"cand_0004\":0.4977,\"cand_0005\":0.3401}}''"
    by (intro exI conjI)
qed

end
